theory Spec2Isabelle
  imports Main "HOL-Library.Word"
begin

section \<open>The hex codec of \<^verbatim>\<open>src/api.ts\<close>\<close>

text \<open>
  An \<^verbatim>\<open>ArrayBuffer\<close> read through \<^verbatim>\<open>Uint8Array\<close> is a list of bytes. A JavaScript
  string is a list of code units; the model keeps the code units below 256 (type
  \<open>char\<close>), which covers every string the codec produces.
\<close>

type_synonym byte = "8 word"

subsection \<open>\<^verbatim>\<open>Number.prototype.toString(radix)\<close> on integers\<close>

text \<open>The digit of a value below 36.\<close>

definition digit_char :: "nat \<Rightarrow> char" where
  "digit_char d = ''0123456789abcdefghijklmnopqrstuvwxyz'' ! d"

function digits_of :: "nat \<Rightarrow> nat \<Rightarrow> string" where
  "digits_of r n =
     (if n < r \<or> r < 2 then [digit_char n]
      else digits_of r (n div r) @ [digit_char (n mod r)])"
  by pat_completeness auto
termination
  by (relation "measure (\<lambda>(r, n). n)") auto

declare digits_of.simps [simp del]

text \<open>
  The digits of an integer in a radix \<open>2 \<le> r \<le> 36\<close>, most significant first, with no
  leading zero and a minus sign for a negative number. This is \<^verbatim>\<open>x.toString(16)\<close> as
  the codec applies it to a byte and \<^verbatim>\<open>relayTransaction\<close> to an amount.
\<close>

definition Number_toString :: "nat \<Rightarrow> int \<Rightarrow> string" where
  "Number_toString r x =
     (if x < 0 then ''-'' @ digits_of r (nat (- x)) else digits_of r (nat x))"

subsection \<open>\<^verbatim>\<open>Number.prototype.toString()\<close> in radix 10\<close>

text \<open>
  In radix 10 a number is written with the fewest digits that still denote it, and in
  exponent notation from \<open>10\<^sup>2\<^sup>1\<close> on. An integer of the model stands for the Number
  value nearest to it: itself below \<open>2\<^sup>5\<^sup>3\<close>, beyond that the integer rounded to 53
  significant bits (a tie to the even significand), and infinity past the largest
  finite value. The functions below take the magnitude, which is not negative.
\<close>

function bit_length :: "int \<Rightarrow> nat" where
  "bit_length n = (if n \<le> 0 then 0 else Suc (bit_length (n div 2)))"
  by pat_completeness auto
termination
  by (relation "measure nat") auto

declare bit_length.simps [simp del]

text \<open>\<open>x\<close> rounded to a multiple of \<open>2\<^sup>s\<close>, a tie to the even quotient.\<close>

definition round_to_shift :: "int \<Rightarrow> nat \<Rightarrow> int" where
  "round_to_shift x s =
     (if 2 ^ s < 2 * (x mod 2 ^ s) \<or> (2 * (x mod 2 ^ s) = 2 ^ s \<and> odd (x div 2 ^ s))
      then x div 2 ^ s + 1
      else x div 2 ^ s) * 2 ^ s"

text \<open>The Number value nearest to \<open>x\<close>; \<open>None\<close> is infinity.\<close>

definition Number_value :: "int \<Rightarrow> int option" where
  "Number_value x =
     (if bit_length (round_to_shift x (bit_length x - 53)) \<le> 1024
      then Some (round_to_shift x (bit_length x - 53))
      else None)"

text \<open>The decimal \<open>y\<close> denotes the Number value \<open>x\<close>: \<open>x\<close> is the value nearest to it.\<close>

definition denotes :: "int \<Rightarrow> int \<Rightarrow> bool" where
  "denotes y x \<longleftrightarrow> 0 < y \<and> Number_value y = Some x"

text \<open>
  Of the two multiples \<open>lo \<le> x < hi\<close> of \<open>p\<close> around \<open>x\<close>, the one that denotes \<open>x\<close>;
  when both do, the closer one, and the one with the even last digit when they are
  equally close.
\<close>

definition closer :: "int \<Rightarrow> int \<Rightarrow> int \<Rightarrow> int \<Rightarrow> int option" where
  "closer x p lo hi =
     (if denotes lo x \<and> denotes hi x then
        (if x - lo < hi - x then Some lo
         else if hi - x < x - lo then Some hi
         else if even (lo div p) then Some lo
         else Some hi)
      else if denotes lo x then Some lo
      else if denotes hi x then Some hi
      else None)"

definition decimal_candidate :: "int \<Rightarrow> nat \<Rightarrow> int option" where
  "decimal_candidate x e =
     closer x (10 ^ e) (x div 10 ^ e * 10 ^ e) (x div 10 ^ e * 10 ^ e + 10 ^ e)"

text \<open>
  The shortest decimal of \<open>x\<close>: the multiple of the largest power \<open>10\<^sup>e\<close>, tried from
  \<open>e\<close> down, that denotes \<open>x\<close>, with the exponent.
\<close>

function shortest_decimal :: "int \<Rightarrow> nat \<Rightarrow> int \<times> nat" where
  "shortest_decimal x e =
     (case decimal_candidate x e of
        Some y \<Rightarrow> (y, e)
      | None \<Rightarrow> (if e = 0 then (x, 0) else shortest_decimal x (e - 1)))"
  by pat_completeness auto
termination
  by (relation "measure (\<lambda>(x, e). e)") auto

declare shortest_decimal.simps [simp del]

function decimal_digits :: "int \<Rightarrow> string" where
  "decimal_digits n =
     (if n < 10 then [digit_char (nat n)]
      else decimal_digits (n div 10) @ [digit_char (nat (n mod 10))])"
  by pat_completeness auto
termination
  by (relation "measure nat") auto

declare decimal_digits.simps [simp del]

text \<open>
  The text of a decimal with the digits \<open>ds\<close>, the last \<open>e\<close> of them trailing zeros:
  all the digits when there are at most 21, and otherwise the first digit, the other
  digits before the trailing zeros after a point when there are any, and \<^verbatim>\<open>e+\<close> with
  the number of digits less one.
\<close>

definition format_decimal :: "string \<Rightarrow> nat \<Rightarrow> string" where
  "format_decimal ds e =
     (if length ds \<le> 21 then ds
      else if length ds - e = 1
      then take 1 ds @ ''e+'' @ decimal_digits (int (length ds) - 1)
      else take 1 ds @ ''.'' @ take (length ds - e - 1) (drop 1 ds)
             @ ''e+'' @ decimal_digits (int (length ds) - 1))"

definition decimal_text :: "int \<Rightarrow> string" where
  "decimal_text x =
     (case shortest_decimal x (length (decimal_digits x)) of
        (y, e) \<Rightarrow> format_decimal (decimal_digits y) e)"

definition is_finite :: "int \<Rightarrow> bool" where
  "is_finite x \<longleftrightarrow> Number_value \<bar>x\<bar> \<noteq> None"

definition Number_toString10 :: "int \<Rightarrow> string" where
  "Number_toString10 x =
     (if x < 0 then ''-'' else []) @
     (case Number_value \<bar>x\<bar> of
        None \<Rightarrow> ''Infinity''
      | Some v \<Rightarrow> decimal_text v)"

subsection \<open>\<^verbatim>\<open>buf2hex\<close>\<close>

text \<open>\<^verbatim>\<open>s.slice(-k)\<close>: the last \<open>k\<close> code units of \<open>s\<close>, all of \<open>s\<close> when it is shorter.\<close>

definition slice_last :: "nat \<Rightarrow> string \<Rightarrow> string" where
  "slice_last k s = drop (length s - k) s"

text \<open>
  \<^verbatim>\<open>'0x' + Array.prototype.map.call(new Uint8Array(buffer),
         x => ('00' + x.toString(16)).slice(-2)).join('')\<close>
\<close>

definition buf2hex :: "byte list \<Rightarrow> string" where
  "buf2hex buffer =
     ''0x'' @ concat (map (\<lambda>x. slice_last 2 (''00'' @ Number_toString 16 (uint x))) buffer)"

subsection \<open>\<^verbatim>\<open>parseInt(s, 16)\<close>\<close>

text \<open>The white space and line terminator code units below 256.\<close>

definition is_whitespace :: "char \<Rightarrow> bool" where
  "is_whitespace c \<longleftrightarrow>
     (of_char c :: nat) \<in> {9, 10, 11, 12, 13, 32, 160}"

definition hex_digit_val :: "char \<Rightarrow> nat option" where
  "hex_digit_val c =
     (let n = (of_char c :: nat) in
      if 48 \<le> n \<and> n \<le> 57 then Some (n - 48)
      else if 97 \<le> n \<and> n \<le> 102 then Some (n - 87)
      else if 65 \<le> n \<and> n \<le> 70 then Some (n - 55)
      else None)"

definition is_hex_digit :: "char \<Rightarrow> bool" where
  "is_hex_digit c \<longleftrightarrow> hex_digit_val c \<noteq> None"

text \<open>The number a run of hex digits denotes; a code unit that is no digit adds nothing.\<close>

definition hex_number :: "string \<Rightarrow> nat" where
  "hex_number z =
     foldl (\<lambda>acc c. case hex_digit_val c of None \<Rightarrow> acc | Some d \<Rightarrow> 16 * acc + d) 0 z"

text \<open>
  \<^verbatim>\<open>parseInt(s, 16)\<close>, \<open>None\<close> for NaN: leading white space is skipped, a sign is
  read, a \<^verbatim>\<open>0x\<close> or \<^verbatim>\<open>0X\<close> prefix is dropped, and the longest run of hex digits is
  the number; no digit at all is NaN.
\<close>

definition parseInt16 :: "string \<Rightarrow> int option" where
  "parseInt16 s =
     (let s0 = dropWhile is_whitespace s;
          sign = (if s0 \<noteq> [] \<and> hd s0 = CHR ''-'' then - 1 else 1 :: int);
          s1 = (if s0 \<noteq> [] \<and> (hd s0 = CHR ''+'' \<or> hd s0 = CHR ''-'') then tl s0 else s0);
          s2 = (if take 2 s1 = ''0x'' \<or> take 2 s1 = ''0X'' then drop 2 s1 else s1);
          z = takeWhile is_hex_digit s2
      in if z = [] then None else Some (sign * int (hex_number z)))"

subsection \<open>\<^verbatim>\<open>hex2buf\<close>\<close>

text \<open>\<^verbatim>\<open>s.substring(a, b)\<close>: the arguments are clamped to the length and swapped when \<open>a > b\<close>.\<close>

definition substring :: "string \<Rightarrow> nat \<Rightarrow> nat \<Rightarrow> string" where
  "substring s a b = take (max a b - min a b) (drop (min a b) s)"

text \<open>Storing a number in a \<^verbatim>\<open>Uint8Array\<close>: NaN becomes 0, an integer is taken modulo 256.\<close>

definition ToUint8 :: "int option \<Rightarrow> byte" where
  "ToUint8 v = (case v of None \<Rightarrow> 0 | Some i \<Rightarrow> word_of_int i)"

text \<open>\<^verbatim>\<open>view[k] = v\<close> on a typed array: a write past the end is ignored.\<close>

definition view_set :: "byte list \<Rightarrow> nat \<Rightarrow> byte \<Rightarrow> byte list" where
  "view_set view k v = (if k < length view then view[k := v] else view)"

text \<open>
  \<^verbatim>\<open>for (let i = 0; i < noPrefix.length; i += 2) {
    view[i / 2] = parseInt(noPrefix.substring(i, i + 2), 16);
  }\<close>
  The index \<open>i\<close> is even throughout, so \<^verbatim>\<open>i / 2\<close> is \<open>i div 2\<close>.
\<close>

function hex2buf_loop :: "string \<Rightarrow> nat \<Rightarrow> byte list \<Rightarrow> byte list" where
  "hex2buf_loop noPrefix i view =
     (if i < length noPrefix
      then hex2buf_loop noPrefix (i + 2)
             (view_set view (i div 2) (ToUint8 (parseInt16 (substring noPrefix i (i + 2)))))
      else view)"
  by pat_completeness auto
termination
  by (relation "measure (\<lambda>(noPrefix, i, view). length noPrefix - i)") auto

declare hex2buf_loop.simps [simp del]

text \<open>
  \<^verbatim>\<open>const noPrefix = s.substring(2);
  const length = noPrefix.length / 2;
  const view = new Uint8Array(length);\<close>
  A new \<^verbatim>\<open>Uint8Array\<close> is filled with zeros; a fractional length is truncated by the
  constructor (\<^verbatim>\<open>ToIndex\<close>).
\<close>

definition hex2buf :: "string \<Rightarrow> byte list" where
  "hex2buf s =
     (let noPrefix = drop 2 s;
          len = length noPrefix div 2;
          view = replicate len (0 :: byte)
      in hex2buf_loop noPrefix 0 view)"

section \<open>Values and JSON\<close>

subsection \<open>Request bodies and \<^verbatim>\<open>JSON.stringify\<close>\<close>

text \<open>
  Every body the client passes to \<^verbatim>\<open>send\<close> is \<^verbatim>\<open>null\<close> or a flat object: a list of
  properties in insertion order, whose values are strings and numbers.
  \<^verbatim>\<open>sendTransaction\<close> passes its argument through, so a property may also be
  \<^verbatim>\<open>undefined\<close> or a \<^verbatim>\<open>BigInt\<close>. A number is given by an integer and is the Number
  value nearest to it (fractional values and NaN are outside the model).
\<close>

datatype jsvalue =
    JSUndefined
  | JSString string
  | JSNumber int
  | JSBigInt int

type_synonym jsobject = "(string \<times> jsvalue) list"

text \<open>
  What the client raises: \<^verbatim>\<open>new Error(message)\<close>, a \<^verbatim>\<open>TypeError\<close> of the runtime, or
  whatever the platform's \<^verbatim>\<open>fetch\<close> and \<^verbatim>\<open>Response.json\<close> reject with.
\<close>

datatype error =
    Error string
  | TypeError
  | SyntaxError string
  | NetworkError string

fun join :: "string \<Rightarrow> string list \<Rightarrow> string" where
  "join sep [] = []"
| "join sep [x] = x"
| "join sep (x # y # ys) = x @ sep @ join sep (y # ys)"

text \<open>
  \<^verbatim>\<open>QuoteJSONString\<close>: the quote, the backslash and the control characters are
  escaped, every other code unit below 256 is copied.
\<close>

definition json_escape :: "char \<Rightarrow> string" where
  "json_escape c =
     (let n = (of_char c :: nat) in
      if n = 34 then [CHR 0x5C, CHR 0x22]
      else if n = 92 then [CHR 0x5C, CHR 0x5C]
      else if n = 8 then [CHR 0x5C, CHR ''b'']
      else if n = 9 then [CHR 0x5C, CHR ''t'']
      else if n = 10 then [CHR 0x5C, CHR ''n'']
      else if n = 12 then [CHR 0x5C, CHR ''f'']
      else if n = 13 then [CHR 0x5C, CHR ''r'']
      else if n < 32 then [CHR 0x5C] @ ''u00'' @ [digit_char (n div 16), digit_char (n mod 16)]
      else [c])"

definition QuoteJSONString :: "string \<Rightarrow> string" where
  "QuoteJSONString s = [CHR 0x22] @ concat (map json_escape s) @ [CHR 0x22]"

text \<open>
  The members of an object, in order. A property whose value is \<^verbatim>\<open>undefined\<close> is left
  out; a \<^verbatim>\<open>BigInt\<close> makes \<^verbatim>\<open>JSON.stringify\<close> throw a \<^verbatim>\<open>TypeError\<close>. A number is
  written as \<^verbatim>\<open>toString()\<close> writes it, and as \<^verbatim>\<open>null\<close> when it is not finite.
\<close>

fun stringify_members :: "jsobject \<Rightarrow> error + string list" where
  "stringify_members [] = Inr []"
| "stringify_members ((k, v) # ps) =
     (case v of
        JSUndefined \<Rightarrow> stringify_members ps
      | JSBigInt n \<Rightarrow> Inl TypeError
      | JSString s \<Rightarrow>
          (case stringify_members ps of
             Inl e \<Rightarrow> Inl e
           | Inr ms \<Rightarrow> Inr ((QuoteJSONString k @ '':'' @ QuoteJSONString s) # ms))
      | JSNumber n \<Rightarrow>
          (case stringify_members ps of
             Inl e \<Rightarrow> Inl e
           | Inr ms \<Rightarrow>
               Inr ((QuoteJSONString k @ '':''
                     @ (if is_finite n then Number_toString10 n else ''null'')) # ms)))"

definition JSON_stringify :: "jsobject \<Rightarrow> error + string" where
  "JSON_stringify obj =
     (case stringify_members obj of
        Inl e \<Rightarrow> Inl e
      | Inr ms \<Rightarrow> Inr (''{'' @ join '','' ms @ ''}''))"

subsection \<open>Parsed response bodies\<close>

text \<open>
  What \<^verbatim>\<open>resp.json()\<close> resolves to. A number is given by an integer here as well, and
  is the Number value nearest to it.
\<close>

datatype json =
    JNull
  | JBool bool
  | JNumber int
  | JString string
  | JArray "json list"
  | JObject "(string \<times> json) list"

text \<open>
  \<^verbatim>\<open>j[key]\<close> for one of the keys this client reads (none of them is a property of
  a prototype): reading a property of \<^verbatim>\<open>null\<close> throws, an object gives the value it
  holds for the key (the last one, had the text repeated the key), any other value
  gives \<^verbatim>\<open>undefined\<close>, which is \<open>None\<close>.
\<close>

definition get_property :: "json \<Rightarrow> string \<Rightarrow> error + json option" where
  "get_property j key =
     (case j of
        JNull \<Rightarrow> Inl TypeError
      | JObject ps \<Rightarrow> Inr (map_of (rev ps) key)
      | _ \<Rightarrow> Inr None)"

text \<open>
  \<^verbatim>\<open>ToString\<close> of a parsed value, as \<^verbatim>\<open>new Error(v)\<close> applies it to its argument. An
  array is the join of its elements, \<^verbatim>\<open>null\<close> elements as the empty string. An object
  is \<^verbatim>\<open>[object Object]\<close>, unless it has a key \<^verbatim>\<open>toString\<close> of its own: a parsed value is
  never a function, so the conversion finds no method to call and throws a
  \<^verbatim>\<open>TypeError\<close>.
\<close>

fun ToString :: "json \<Rightarrow> error + string"
  and ToString_elements :: "json list \<Rightarrow> error + string list" where
  "ToString JNull = Inr ''null''"
| "ToString (JBool b) = Inr (if b then ''true'' else ''false'')"
| "ToString (JNumber n) = Inr (Number_toString10 n)"
| "ToString (JString s) = Inr s"
| "ToString (JArray xs) =
     (case ToString_elements xs of
        Inl e \<Rightarrow> Inl e
      | Inr ss \<Rightarrow> Inr (join '','' ss))"
| "ToString (JObject ps) =
     (if ''toString'' \<in> set (map fst ps) then Inl TypeError else Inr ''[object Object]'')"
| "ToString_elements [] = Inr []"
| "ToString_elements (x # xs) =
     (case (if x = JNull then Inr [] else ToString x) of
        Inl e \<Rightarrow> Inl e
      | Inr s \<Rightarrow>
          (case ToString_elements xs of
             Inl e \<Rightarrow> Inl e
           | Inr ss \<Rightarrow> Inr (s # ss)))"

text \<open>
  \<^verbatim>\<open>new Error(v)\<close>: the message is empty when \<open>v\<close> is \<^verbatim>\<open>undefined\<close> and \<^verbatim>\<open>ToString(v)\<close>
  otherwise; the constructor throws what the conversion throws.
\<close>

definition new_Error :: "json option \<Rightarrow> error + error" where
  "new_Error v =
     (case v of
        None \<Rightarrow> Inr (Error [])
      | Some j \<Rightarrow> (case ToString j of Inl e \<Rightarrow> Inl e | Inr m \<Rightarrow> Inr (Error m)))"

section \<open>The client\<close>

subsection \<open>Configuration and construction\<close>

text \<open>\<^verbatim>\<open>type RocksideNetwork = [3, 'ropsten'] | [1, 'mainnet']\<close>\<close>

datatype RocksideNetwork = Ropsten | Mainnet

fun network_0 :: "RocksideNetwork \<Rightarrow> nat" where
  "network_0 Ropsten = 3"
| "network_0 Mainnet = 1"

fun network_1 :: "RocksideNetwork \<Rightarrow> string" where
  "network_1 Ropsten = ''ropsten''"
| "network_1 Mainnet = ''mainnet''"

text \<open>An optional field that is absent (\<^verbatim>\<open>undefined\<close>) is \<open>None\<close>.\<close>

record RocksideApiOpts =
  baseUrl :: string
  token :: "string option"
  apikey :: "string option"
  network :: RocksideNetwork

record RocksideApi =
  opts :: RocksideApiOpts
  headers :: "(string \<times> string) list"

text \<open>
  The truth value of an optional string in a condition: \<^verbatim>\<open>undefined\<close> and the empty
  string are false.
\<close>

definition truthy :: "string option \<Rightarrow> bool" where
  "truthy v = (case v of None \<Rightarrow> False | Some s \<Rightarrow> s \<noteq> [])"

text \<open>An optional string as the operand of \<^verbatim>\<open>+\<close> on strings.\<close>

definition concat_operand :: "string option \<Rightarrow> string" where
  "concat_operand v = (case v of None \<Rightarrow> ''undefined'' | Some s \<Rightarrow> s)"

definition generateHeaders :: "RocksideApiOpts \<Rightarrow> (string \<times> string) list" where
  "generateHeaders options =
     (case apikey options of
        Some k \<Rightarrow>
          (if k \<noteq> [] then [(''apikey'', k)]
           else [(''Authorization'', ''Bearer '' @ concat_operand (token options))])
      | None \<Rightarrow> [(''Authorization'', ''Bearer '' @ concat_operand (token options))])"

definition authenticationChecks :: "RocksideApiOpts \<Rightarrow> error + unit" where
  "authenticationChecks options =
     (if truthy (apikey options) \<and> truthy (token options)
      then Inl (Error ''Both access token and api key provided. Only one needed.'')
      else if \<not> truthy (apikey options) \<and> \<not> truthy (token options)
      then Inl (Error ''No authentication method provided: define apikey or token.'')
      else Inr ())"

text \<open>
  The constructor. It calls no network function: its result is the client or the
  error it throws.
\<close>

definition new_RocksideApi :: "RocksideApiOpts \<Rightarrow> error + RocksideApi" where
  "new_RocksideApi options =
     (case authenticationChecks options of
        Inl e \<Rightarrow> Inl e
      | Inr _ \<Rightarrow> Inr \<lparr>opts = options, headers = generateHeaders options\<rparr>)"

definition getRpcUrl :: "RocksideApi \<Rightarrow> string" where
  "getRpcUrl this = baseUrl (opts this) @ ''/ethereum/'' @ network_1 (network (opts this)) @ ''/jsonrpc''"

definition getToken :: "RocksideApi \<Rightarrow> string option" where
  "getToken this = token (opts this)"

subsection \<open>Requests\<close>

text \<open>
  The arguments of a call of \<^verbatim>\<open>fetch\<close>: the URL and, of the init object, the method,
  the body (\<open>None\<close> for \<^verbatim>\<open>null\<close>) and the headers.
\<close>

record request =
  req_url :: string
  req_method :: string
  req_body :: "string option"
  req_headers :: "(string \<times> string) list"

text \<open>
  \<^verbatim>\<open>send\<close> up to its call of \<^verbatim>\<open>fetch\<close>: the request it hands over, or the error
  \<^verbatim>\<open>JSON.stringify\<close> throws before. The body argument is \<open>None\<close> for \<^verbatim>\<open>null\<close>;
  \<^verbatim>\<open>!!body\<close> is true of every object, the empty one included.
\<close>

definition send :: "RocksideApi \<Rightarrow> string \<Rightarrow> string \<Rightarrow> jsobject option \<Rightarrow> error + request" where
  "send this route verb body =
     (case body of
        None \<Rightarrow>
          Inr \<lparr>req_url = baseUrl (opts this) @ route, req_method = verb,
               req_body = None, req_headers = headers this\<rparr>
      | Some obj \<Rightarrow>
          (case JSON_stringify obj of
             Inl e \<Rightarrow> Inl e
           | Inr s \<Rightarrow>
               Inr \<lparr>req_url = baseUrl (opts this) @ route, req_method = verb,
                    req_body = Some s, req_headers = headers this\<rparr>))"

record ExecuteTransaction =
  relayer :: string
  tx_from :: string
  tx_to :: string
  tx_value :: int
  tx_data :: "byte list"
  gas :: int
  gasPrice :: int
  signature :: string

record EncryptedAccount =
  username :: string
  iterations :: int
  passwordHash :: "byte list"
  passwordDerivedKeyHash :: "byte list"
  encryptedEncryptionKey :: "byte list"
  encryptedEncryptionKeyIV :: "byte list"

record EncryptedWallet =
  encryptedMnemonic :: "byte list"
  encryptedMnemonicIV :: "byte list"

text \<open>The request each method sends: its call of \<^verbatim>\<open>this.send\<close>.\<close>

definition getIdentities_request :: "RocksideApi \<Rightarrow> error + request" where
  "getIdentities_request this =
     send this (''/ethereum/'' @ network_1 (network (opts this)) @ ''/smartwallets'') ''GET'' None"

definition createIdentity_request :: "RocksideApi \<Rightarrow> string \<Rightarrow> string \<Rightarrow> error + request" where
  "createIdentity_request this forwarder account =
     send this (''/ethereum/'' @ network_1 (network (opts this)) @ ''/smartwallets'') ''POST''
       (Some [(''forwarder'', JSString forwarder), (''account'', JSString account)])"

definition getEOAs_request :: "RocksideApi \<Rightarrow> error + request" where
  "getEOAs_request this = send this ''/ethereum/eoa'' ''GET'' None"

definition createEOA_request :: "RocksideApi \<Rightarrow> error + request" where
  "createEOA_request this = send this ''/ethereum/eoa'' ''POST'' (Some [])"

definition signMessageWithEOA_request :: "RocksideApi \<Rightarrow> string \<Rightarrow> string \<Rightarrow> error + request" where
  "signMessageWithEOA_request this eoa hash =
     send this (''/ethereum/eoa/'' @ eoa @ ''/sign-message'') ''POST''
       (Some [(''message'', JSString hash)])"

definition sendTransaction_request :: "RocksideApi \<Rightarrow> jsobject \<Rightarrow> error + request" where
  "sendTransaction_request this tx =
     send this (''/ethereum/'' @ network_1 (network (opts this)) @ ''/transaction'') ''POST'' (Some tx)"

definition createEncryptedAccount_body :: "EncryptedAccount \<Rightarrow> jsobject" where
  "createEncryptedAccount_body account =
     [(''username'', JSString (username account)),
      (''password_hash'', JSString (buf2hex (passwordHash account))),
      (''encrypted_encryption_key'', JSString (buf2hex (encryptedEncryptionKey account))),
      (''encrypted_encryption_key_iv'', JSString (buf2hex (encryptedEncryptionKeyIV account))),
      (''iterations'', JSNumber (iterations account)),
      (''password_derived_key_hash'', JSString (buf2hex (passwordDerivedKeyHash account)))]"

definition createEncryptedAccount_request :: "RocksideApi \<Rightarrow> EncryptedAccount \<Rightarrow> error + request" where
  "createEncryptedAccount_request this account =
     send this ''/encryptedaccounts'' ''PUT'' (Some (createEncryptedAccount_body account))"

definition connectEncryptedAccount_request :: "RocksideApi \<Rightarrow> string \<Rightarrow> byte list \<Rightarrow> error + request" where
  "connectEncryptedAccount_request this uname pwHash =
     send this ''/encryptedaccounts/connect'' ''POST''
       (Some [(''username'', JSString uname), (''password_hash'', JSString (buf2hex pwHash))])"

definition createEncryptedWallet_body :: "EncryptedAccount \<Rightarrow> EncryptedWallet \<Rightarrow> jsobject" where
  "createEncryptedWallet_body account wallet =
     [(''username'', JSString (username account)),
      (''password_hash'', JSString (buf2hex (passwordHash account))),
      (''encrypted_mnemonic'', JSString (buf2hex (encryptedMnemonic wallet))),
      (''encrypted_mnemonic_iv'', JSString (buf2hex (encryptedMnemonicIV wallet)))]"

definition createEncryptedWallet_request ::
  "RocksideApi \<Rightarrow> EncryptedAccount \<Rightarrow> EncryptedWallet \<Rightarrow> error + request" where
  "createEncryptedWallet_request this account wallet =
     send this ''/encryptedaccounts/wallets'' ''PUT''
       (Some (createEncryptedWallet_body account wallet))"

definition getEncryptedWallets_request :: "RocksideApi \<Rightarrow> string \<Rightarrow> byte list \<Rightarrow> error + request" where
  "getEncryptedWallets_request this uname pwHash =
     send this ''/encryptedaccounts/wallets'' ''POST''
       (Some [(''username'', JSString uname), (''password_hash'', JSString (buf2hex pwHash))])"

definition deployIdentityContract_request :: "RocksideApi \<Rightarrow> string \<Rightarrow> error + request" where
  "deployIdentityContract_request this address =
     send this (''/ethereum/'' @ network_1 (network (opts this)) @ ''/contracts/relayableidentity'')
       ''POST'' (Some [(''account'', JSString address)])"

definition getRelayParams_request :: "RocksideApi \<Rightarrow> string \<Rightarrow> string \<Rightarrow> int \<Rightarrow> error + request" where
  "getRelayParams_request this identity account channel =
     send this
       (''/ethereum/'' @ network_1 (network (opts this)) @ ''/contracts/relayableidentity/''
          @ identity @ ''/relayParams'')
       ''POST''
       (Some [(''account'', JSString account),
              (''channel_id'', JSString (Number_toString10 channel))])"

definition relayTransaction_body :: "ExecuteTransaction \<Rightarrow> jsobject" where
  "relayTransaction_body tx =
     [(''relayer'', JSString (relayer tx)),
      (''from'', JSString (tx_from tx)),
      (''to'', JSString (tx_to tx)),
      (''value'', JSString (''0x'' @ Number_toString 16 (tx_value tx))),
      (''data'', JSString (buf2hex (tx_data tx))),
      (''signature'', JSString (signature tx))]"

definition relayTransaction_request :: "RocksideApi \<Rightarrow> string \<Rightarrow> ExecuteTransaction \<Rightarrow> error + request" where
  "relayTransaction_request this identity tx =
     send this
       (''/ethereum/'' @ network_1 (network (opts this)) @ ''/contracts/relayableidentity/''
          @ identity @ ''/relayExecute'')
       ''POST'' (Some (relayTransaction_body tx))"

definition getTransaction_request :: "RocksideApi \<Rightarrow> string \<Rightarrow> error + request" where
  "getTransaction_request this txHashOrTrackingId =
     send this (''/ethereum/'' @ network_1 (network (opts this)) @ ''/transactions/'' @ txHashOrTrackingId)
       ''GET'' None"

text \<open>The methods that send a request, with their arguments.\<close>

datatype call =
    GetIdentities
  | CreateIdentity string string
  | GetEOAs
  | CreateEOA
  | SignMessageWithEOA string string
  | SendTransaction jsobject
  | CreateEncryptedAccount EncryptedAccount
  | ConnectEncryptedAccount string "byte list"
  | CreateEncryptedWallet EncryptedAccount EncryptedWallet
  | GetEncryptedWallets string "byte list"
  | DeployIdentityContract string
  | GetRelayParams string string int
  | RelayTransaction string ExecuteTransaction
  | GetTransaction string

fun request_of :: "RocksideApi \<Rightarrow> call \<Rightarrow> error + request" where
  "request_of this GetIdentities = getIdentities_request this"
| "request_of this (CreateIdentity forwarder account) = createIdentity_request this forwarder account"
| "request_of this GetEOAs = getEOAs_request this"
| "request_of this CreateEOA = createEOA_request this"
| "request_of this (SignMessageWithEOA eoa hash) = signMessageWithEOA_request this eoa hash"
| "request_of this (SendTransaction tx) = sendTransaction_request this tx"
| "request_of this (CreateEncryptedAccount account) = createEncryptedAccount_request this account"
| "request_of this (ConnectEncryptedAccount uname pwHash) = connectEncryptedAccount_request this uname pwHash"
| "request_of this (CreateEncryptedWallet account wallet) = createEncryptedWallet_request this account wallet"
| "request_of this (GetEncryptedWallets uname pwHash) = getEncryptedWallets_request this uname pwHash"
| "request_of this (DeployIdentityContract address) = deployIdentityContract_request this address"
| "request_of this (GetRelayParams identity account channel) = getRelayParams_request this identity account channel"
| "request_of this (RelayTransaction identity tx) = relayTransaction_request this identity tx"
| "request_of this (GetTransaction h) = getTransaction_request this h"

subsection \<open>Responses\<close>

text \<open>
  Of a \<^verbatim>\<open>Response\<close> the client reads the status and the outcome of \<^verbatim>\<open>resp.json()\<close>:
  the parsed body, or the error the promise rejects with when the body is not JSON.
  The network is a function from the request to the response, or to the error
  \<^verbatim>\<open>fetch\<close> rejects with.
\<close>

record response =
  status :: nat
  resp_json :: "error + json"

type_synonym fetch = "request \<Rightarrow> error + response"

text \<open>
  \<^verbatim>\<open>const json = await resp.json(); throw new Error(json['error']);\<close>
  It never returns: every outcome is \<open>Inl\<close>.
\<close>

definition extractError :: "response \<Rightarrow> error + error" where
  "extractError resp =
     (case resp_json resp of
        Inl e \<Rightarrow> Inl e
      | Inr j \<Rightarrow>
          (case get_property j ''error'' of
             Inl e \<Rightarrow> Inl e
           | Inr v \<Rightarrow>
               (case new_Error v of
                  Inl e \<Rightarrow> Inl e
                | Inr err \<Rightarrow> Inl err)))"

text \<open>\<^verbatim>\<open>throw await this.extractError(resp)\<close>\<close>

definition throw_extractError :: "response \<Rightarrow> error + 'a" where
  "throw_extractError resp = (case extractError resp of Inl e \<Rightarrow> Inl e | Inr e \<Rightarrow> Inl e)"

definition createEncryptedAccount :: "fetch \<Rightarrow> RocksideApi \<Rightarrow> EncryptedAccount \<Rightarrow> error + unit" where
  "createEncryptedAccount net this account =
     (case createEncryptedAccount_request this account of
        Inl e \<Rightarrow> Inl e
      | Inr req \<Rightarrow>
          (case net req of
             Inl e \<Rightarrow> Inl e
           | Inr resp \<Rightarrow>
               (if status resp \<noteq> 201 \<and> status resp \<noteq> 409 then throw_extractError resp
                else Inr ())))"

definition createEncryptedWallet ::
  "fetch \<Rightarrow> RocksideApi \<Rightarrow> EncryptedAccount \<Rightarrow> EncryptedWallet \<Rightarrow> error + unit" where
  "createEncryptedWallet net this account wallet =
     (case createEncryptedWallet_request this account wallet of
        Inl e \<Rightarrow> Inl e
      | Inr req \<Rightarrow>
          (case net req of
             Inl e \<Rightarrow> Inl e
           | Inr resp \<Rightarrow>
               (if status resp \<noteq> 201 then throw_extractError resp else Inr ())))"

text \<open>
  \<^verbatim>\<open>hex2buf(v)\<close> on a value read from a parsed body: \<^verbatim>\<open>s.substring\<close> is a function
  only when \<open>v\<close> is a string; on \<^verbatim>\<open>undefined\<close>, \<^verbatim>\<open>null\<close> and every other parsed value
  the call throws a \<^verbatim>\<open>TypeError\<close>.
\<close>

definition hex2buf_of :: "json option \<Rightarrow> error + byte list" where
  "hex2buf_of v = (case v of Some (JString s) \<Rightarrow> Inr (hex2buf s) | _ \<Rightarrow> Inl TypeError)"

text \<open>
  \<^verbatim>\<open>jsonWallet => ({
    encryptedMnemonic: hex2buf(jsonWallet['encrypted_mnemonic']),
    encryptedMnemonicIV: hex2buf(jsonWallet['mnemonic_iv']),
  })\<close>
\<close>

definition decode_wallet :: "json \<Rightarrow> error + EncryptedWallet" where
  "decode_wallet jsonWallet =
     (case get_property jsonWallet ''encrypted_mnemonic'' of
        Inl e \<Rightarrow> Inl e
      | Inr m \<Rightarrow>
          (case hex2buf_of m of
             Inl e \<Rightarrow> Inl e
           | Inr mnemonic \<Rightarrow>
               (case get_property jsonWallet ''mnemonic_iv'' of
                  Inl e \<Rightarrow> Inl e
                | Inr i \<Rightarrow>
                    (case hex2buf_of i of
                       Inl e \<Rightarrow> Inl e
                     | Inr iv \<Rightarrow>
                         Inr \<lparr>encryptedMnemonic = mnemonic, encryptedMnemonicIV = iv\<rparr>))))"

fun decode_wallets :: "json list \<Rightarrow> error + EncryptedWallet list" where
  "decode_wallets [] = Inr []"
| "decode_wallets (j # js) =
     (case decode_wallet j of
        Inl e \<Rightarrow> Inl e
      | Inr w \<Rightarrow> (case decode_wallets js of Inl e \<Rightarrow> Inl e | Inr ws \<Rightarrow> Inr (w # ws)))"

text \<open>\<^verbatim>\<open>json.map(...)\<close>: only an array has the method.\<close>

definition getEncryptedWallets ::
  "fetch \<Rightarrow> RocksideApi \<Rightarrow> string \<Rightarrow> byte list \<Rightarrow> error + EncryptedWallet list" where
  "getEncryptedWallets net this uname pwHash =
     (case getEncryptedWallets_request this uname pwHash of
        Inl e \<Rightarrow> Inl e
      | Inr req \<Rightarrow>
          (case net req of
             Inl e \<Rightarrow> Inl e
           | Inr resp \<Rightarrow>
               (if status resp \<noteq> 200 then throw_extractError resp
                else (case resp_json resp of
                        Inl e \<Rightarrow> Inl e
                      | Inr (JArray js) \<Rightarrow> decode_wallets js
                      | Inr _ \<Rightarrow> Inl TypeError))))"

subsection \<open>A server that echoes what it stores\<close>

text \<open>
  For the round trip of a stored wallet: a server that keeps the body of a store
  request and returns the record under the field names it was stored with. The body
  is read back as JSON (a property that \<^verbatim>\<open>JSON.stringify\<close> leaves out is not
  stored), and the listing answers 200 with the array of the one record.
\<close>

fun json_of_jsvalue :: "jsvalue \<Rightarrow> json option" where
  "json_of_jsvalue JSUndefined = None"
| "json_of_jsvalue (JSString s) = Some (JString s)"
| "json_of_jsvalue (JSNumber n) = Some (JNumber n)"
| "json_of_jsvalue (JSBigInt n) = None"

fun stored_fields :: "jsobject \<Rightarrow> (string \<times> json) list" where
  "stored_fields [] = []"
| "stored_fields ((k, v) # ps) =
     (case json_of_jsvalue v of
        None \<Rightarrow> stored_fields ps
      | Some j \<Rightarrow> (k, j) # stored_fields ps)"

definition stored_record :: "jsobject \<Rightarrow> json" where
  "stored_record body = JObject (stored_fields body)"

definition echo_server :: "jsobject \<Rightarrow> fetch" where
  "echo_server body = (\<lambda>req. Inr \<lparr>status = 200, resp_json = Inr (JArray [stored_record body])\<rparr>)"

section \<open>Properties of the hex codec\<close>

lemma buf2hex_Nil: "buf2hex [] = ''0x''"
  by (simp add: buf2hex_def)

lemma digits_of_16_byte:
  assumes "n < 256"
  shows "slice_last 2 (''00'' @ digits_of 16 n) = [digit_char (n div 16), digit_char (n mod 16)]"
proof (cases "n < 16")
  case True
  then have "digits_of 16 n = [digit_char n]"
    by (simp add: digits_of.simps)
  moreover have "digit_char 0 = CHR ''0''"
    by (simp add: digit_char_def)
  ultimately show ?thesis
    using True by (simp add: slice_last_def)
next
  case False
  from assms have "n div 16 < 16" by simp
  then have "digits_of 16 (n div 16) = [digit_char (n div 16)]"
    by (simp add: digits_of.simps)
  with False have "digits_of 16 n = [digit_char (n div 16), digit_char (n mod 16)]"
    by (subst digits_of.simps) simp
  then show ?thesis
    by (simp add: slice_last_def)
qed

lemma hex_of_byte:
  fixes x :: byte
  shows "slice_last 2 (''00'' @ Number_toString 16 (uint x))
           = [digit_char (unat x div 16), digit_char (unat x mod 16)]"
proof -
  have "unat x < 256"
    using unsigned_less [of x, where ?'a = nat] by simp
  moreover have "Number_toString 16 (uint x) = digits_of 16 (unat x)"
    by (simp add: Number_toString_def)
  ultimately show ?thesis
    by (simp only: digits_of_16_byte)
qed

lemma buf2hex_digits:
  "buf2hex b = ''0x'' @ concat (map (\<lambda>x. [digit_char (unat x div 16), digit_char (unat x mod 16)]) b)"
  by (simp only: buf2hex_def hex_of_byte)

lemma nibble_cases:
  assumes "d < (16::nat)"
  obtains "d = 0" | "d = 1" | "d = 2" | "d = 3" | "d = 4" | "d = 5" | "d = 6" | "d = 7"
    | "d = 8" | "d = 9" | "d = 10" | "d = 11" | "d = 12" | "d = 13" | "d = 14" | "d = 15"
  using assms by atomize_elim arith

lemma digit_char_props:
  assumes "d < 16"
  shows "hex_digit_val (digit_char d) = Some d"
    and "\<not> is_whitespace (digit_char d)"
    and "digit_char d \<noteq> CHR ''-''"
    and "digit_char d \<noteq> CHR ''+''"
    and "digit_char d \<noteq> CHR ''x''"
    and "digit_char d \<noteq> CHR ''X''"
    and "digit_char d \<in> set ''0123456789abcdef''"
  using assms
  by (cases d rule: nibble_cases; simp add: digit_char_def hex_digit_val_def is_whitespace_def)+

lemma parseInt16_digits:
  assumes "a < 16" "b < 16"
  shows "parseInt16 [digit_char a, digit_char b] = Some (int (16 * a + b))"
  using assms
  by (simp add: parseInt16_def digit_char_props is_hex_digit_def hex_number_def Let_def)

lemma decode_hex_of_byte:
  fixes x :: byte
  shows "ToUint8 (parseInt16 [digit_char (unat x div 16), digit_char (unat x mod 16)]) = x"
proof -
  have "unat x < 256"
    using unsigned_less [of x, where ?'a = nat] by simp
  then have "unat x div 16 < 16" and "unat x mod 16 < 16"
    by simp_all
  then have "parseInt16 [digit_char (unat x div 16), digit_char (unat x mod 16)]
      = Some (int (16 * (unat x div 16) + unat x mod 16))"
    by (rule parseInt16_digits)
  also have "16 * (unat x div 16) + unat x mod 16 = unat x"
    by simp
  finally show ?thesis
    by (simp add: ToUint8_def)
qed

lemma pair_block:
  assumes "k < length bs"
  shows "take 2 (drop (2 * k) (concat (map (\<lambda>x. [f x, g x]) bs))) = [f (bs ! k), g (bs ! k)]"
  using assms
proof (induction bs arbitrary: k)
  case Nil
  then show ?case by simp
next
  case (Cons b bs)
  show ?case
  proof (cases k)
    case 0
    then show ?thesis by simp
  next
    case (Suc j)
    with Cons.prems have "j < length bs" by simp
    from Cons.IH [OF this] Suc show ?thesis by simp
  qed
qed

lemma length_pairs: "length (concat (map (\<lambda>x. [f x, g x]) bs)) = 2 * length bs"
  by (induction bs) simp_all

lemma hex2buf_loop_decodes:
  fixes bs view :: "byte list"
  assumes "length view = length bs" and "k \<le> length bs"
  shows "hex2buf_loop (concat (map (\<lambda>x. [digit_char (unat x div 16), digit_char (unat x mod 16)]) bs))
           (2 * k) view = take k view @ drop k bs"
  using assms
proof (induction "length bs - k" arbitrary: k view)
  case 0
  then have "k = length bs" by simp
  with "0.prems" show ?case
    by (subst hex2buf_loop.simps) (simp add: length_pairs)
next
  case (Suc n)
  let ?np = "concat (map (\<lambda>x. [digit_char (unat x div 16), digit_char (unat x mod 16)]) bs)"
  from Suc.hyps have k: "k < length bs" by simp
  have sub: "substring ?np (2 * k) (2 * k + 2)
      = [digit_char (unat (bs ! k) div 16), digit_char (unat (bs ! k) mod 16)]"
    using pair_block [OF k] by (simp add: substring_def)
  have cond: "2 * k < length ?np"
    using k by (simp add: length_pairs)
  have "hex2buf_loop ?np (2 * k) view
      = hex2buf_loop ?np (2 * k + 2)
          (view_set view (2 * k div 2) (ToUint8 (parseInt16 (substring ?np (2 * k) (2 * k + 2)))))"
    by (subst hex2buf_loop.simps) (simp only: cond if_True)
  also have "view_set view (2 * k div 2) (ToUint8 (parseInt16 (substring ?np (2 * k) (2 * k + 2))))
      = view[k := bs ! k]"
    using k Suc.prems by (simp only: sub decode_hex_of_byte) (simp add: view_set_def)
  finally have step: "hex2buf_loop ?np (2 * k) view = hex2buf_loop ?np (2 * Suc k) (view[k := bs ! k])"
    by simp
  have "hex2buf_loop ?np (2 * Suc k) (view[k := bs ! k])
      = take (Suc k) (view[k := bs ! k]) @ drop (Suc k) bs"
    using Suc.hyps Suc.prems k by (intro Suc.hyps(1)) simp_all
  also have "take (Suc k) (view[k := bs ! k]) = take k view @ [bs ! k]"
    using k Suc.prems by (simp add: take_Suc_conv_app_nth)
  finally show ?case
    using k by (simp add: step Cons_nth_drop_Suc)
qed

lemma hex2buf_buf2hex_aux: "hex2buf (buf2hex b) = b"
proof -
  have "hex2buf (buf2hex b) =
      hex2buf_loop (concat (map (\<lambda>x. [digit_char (unat x div 16), digit_char (unat x mod 16)]) b))
        (2 * 0) (replicate (length b) 0)"
    by (simp add: hex2buf_def buf2hex_digits length_pairs)
  also have "\<dots> = take 0 (replicate (length b) 0) @ drop 0 b"
    by (rule hex2buf_loop_decodes) simp_all
  finally show ?thesis by simp
qed

lemma length_buf2hex: "length (buf2hex b) = 2 + 2 * length b"
  by (simp add: buf2hex_digits length_pairs)

lemma buf2hex_lowercase: "set (drop 2 (buf2hex b)) \<subseteq> set ''0123456789abcdef''"
proof -
  have "unat x div 16 < 16" and "unat x mod 16 < 16" for x :: byte
    using unsigned_less [of x, where ?'a = nat] by simp_all
  then have "set [digit_char (unat x div 16), digit_char (unat x mod 16)]
      \<subseteq> set ''0123456789abcdef''" for x :: byte
    using digit_char_props(7) [of "unat x div 16"] digit_char_props(7) [of "unat x mod 16"]
    by simp
  then show ?thesis
    by (auto simp add: buf2hex_digits simp del: set_simps)
qed

lemma hex2buf_empty: "hex2buf ''0x'' = []"
  by (simp add: hex2buf_def hex2buf_loop.simps)

text \<open>
  C1. Decoding the encoding of a byte buffer gives the buffer back, for every buffer,
  the empty one included: \<^verbatim>\<open>hex2buf(buf2hex(b))\<close> is \<open>b\<close>. The empty buffer is encoded
  as \<^verbatim>\<open>"0x"\<close>, and \<^verbatim>\<open>"0x"\<close> is decoded to the empty buffer.
\<close>

theorem hex2buf_buf2hex_inverse:
  "hex2buf (buf2hex b) = b \<and> buf2hex [] = ''0x'' \<and> hex2buf ''0x'' = []"
  by (simp only: hex2buf_buf2hex_aux buf2hex_Nil hex2buf_empty simp_thms)

text \<open>
  C5. \<^verbatim>\<open>buf2hex\<close> writes \<^verbatim>\<open>0x\<close> and then, for every byte, exactly two lowercase hex
  digits, the high nibble first, a zero where the nibble is zero: the byte \<open>0x00\<close>
  gives \<^verbatim>\<open>"0x00"\<close> and the bytes \<open>0x01, 0xFF\<close> give \<^verbatim>\<open>"0x01ff"\<close>.
\<close>

theorem buf2hex_zero_padded:
  "buf2hex b = ''0x'' @ concat (map (\<lambda>x. [digit_char (unat x div 16), digit_char (unat x mod 16)]) b)
   \<and> length (buf2hex b) = 2 + 2 * length b
   \<and> set (drop 2 (buf2hex b)) \<subseteq> set ''0123456789abcdef''
   \<and> buf2hex [0] = ''0x00''
   \<and> buf2hex [1, 255] = ''0x01ff''"
proof -
  have "buf2hex [0] = ''0x00''"
    by (simp add: buf2hex_digits digit_char_def)
  moreover have "buf2hex [1, 255] = ''0x01ff''"
    by (simp add: buf2hex_digits digit_char_def)
  ultimately show ?thesis
    using buf2hex_digits [of b] length_buf2hex [of b] buf2hex_lowercase [of b]
    by (simp only: simp_thms)
qed

section \<open>Properties of the client\<close>

subsection \<open>Construction\<close>

text \<open>
  C2, as the code has it. A credential counts when it is present and not the empty
  string. The constructor throws the error
  \<^verbatim>\<open>Both access token and api key provided. Only one needed.\<close> when both credentials
  count, throws \<^verbatim>\<open>No authentication method provided: define apikey or token.\<close> when
  neither counts, and returns the client when exactly one counts. It throws before
  anything is sent: the constructor has no access to the network.
\<close>

theorem constructor_checks_credentials:
  "(truthy (apikey options) \<and> truthy (token options) \<longrightarrow>
      new_RocksideApi options
        = Inl (Error ''Both access token and api key provided. Only one needed.''))
   \<and> (\<not> truthy (apikey options) \<and> \<not> truthy (token options) \<longrightarrow>
      new_RocksideApi options
        = Inl (Error ''No authentication method provided: define apikey or token.''))
   \<and> (truthy (apikey options) \<noteq> truthy (token options) \<longrightarrow>
      new_RocksideApi options = Inr \<lparr>opts = options, headers = generateHeaders options\<rparr>)"
  by (simp add: new_RocksideApi_def authenticationChecks_def)

theorem constructor_checks_credentials_witness:
  "truthy (apikey \<lparr>baseUrl = ''https://x'', token = Some ''t'', apikey = Some ''k'', network = Mainnet\<rparr>)
   \<and> truthy (token \<lparr>baseUrl = ''https://x'', token = Some ''t'', apikey = Some ''k'', network = Mainnet\<rparr>)
   \<and> new_RocksideApi \<lparr>baseUrl = ''https://x'', token = Some ''t'', apikey = Some ''k'', network = Mainnet\<rparr>
        = Inl (Error ''Both access token and api key provided. Only one needed.'')
   \<and> \<not> truthy (apikey \<lparr>baseUrl = ''https://x'', token = None, apikey = None, network = Ropsten\<rparr>)
   \<and> \<not> truthy (token \<lparr>baseUrl = ''https://x'', token = None, apikey = None, network = Ropsten\<rparr>)
   \<and> new_RocksideApi \<lparr>baseUrl = ''https://x'', token = None, apikey = None, network = Ropsten\<rparr>
        = Inl (Error ''No authentication method provided: define apikey or token.'')
   \<and> truthy (apikey \<lparr>baseUrl = ''https://x'', token = None, apikey = Some ''k'', network = Mainnet\<rparr>)
       \<noteq> truthy (token \<lparr>baseUrl = ''https://x'', token = None, apikey = Some ''k'', network = Mainnet\<rparr>)
   \<and> new_RocksideApi \<lparr>baseUrl = ''https://x'', token = None, apikey = Some ''k'', network = Mainnet\<rparr>
        = Inr \<lparr>opts = \<lparr>baseUrl = ''https://x'', token = None, apikey = Some ''k'', network = Mainnet\<rparr>,
               headers = [(''apikey'', ''k'')]\<rparr>"
  using constructor_checks_credentials
          [of "\<lparr>baseUrl = ''https://x'', token = Some ''t'', apikey = Some ''k'', network = Mainnet\<rparr>"]
        constructor_checks_credentials
          [of "\<lparr>baseUrl = ''https://x'', token = None, apikey = None, network = Ropsten\<rparr>"]
        constructor_checks_credentials
          [of "\<lparr>baseUrl = ''https://x'', token = None, apikey = Some ''k'', network = Mainnet\<rparr>"]
  by (simp add: truthy_def generateHeaders_def)

text \<open>
  The claim C2 as the specification words it fails where a credential is supplied as
  the empty string: with \<^verbatim>\<open>apikey: ""\<close> and \<^verbatim>\<open>token: "t"\<close> both fields are supplied
  and the construction succeeds.
\<close>

theorem both_supplied_counterexample:
  "apikey \<lparr>baseUrl = ''https://x'', token = Some ''t'', apikey = Some '''', network = Mainnet\<rparr> \<noteq> None
   \<and> token \<lparr>baseUrl = ''https://x'', token = Some ''t'', apikey = Some '''', network = Mainnet\<rparr> \<noteq> None
   \<and> new_RocksideApi \<lparr>baseUrl = ''https://x'', token = Some ''t'', apikey = Some '''', network = Mainnet\<rparr>
        = Inr \<lparr>opts = \<lparr>baseUrl = ''https://x'', token = Some ''t'', apikey = Some '''', network = Mainnet\<rparr>,
               headers = [(''Authorization'', ''Bearer t'')]\<rparr>"
  by (simp add: new_RocksideApi_def authenticationChecks_def truthy_def generateHeaders_def
      concat_operand_def)

text \<open>
  C10. Presence is decided by truthiness. With \<^verbatim>\<open>apikey: ""\<close> and a non-empty token the
  construction succeeds and the headers are the bearer token's; with \<^verbatim>\<open>apikey: ""\<close>
  and no token the constructor throws the error for no authentication method, although
  an \<^verbatim>\<open>apikey\<close> field was supplied.
\<close>

theorem empty_apikey_counts_as_absent:
  "(t \<noteq> [] \<longrightarrow>
      new_RocksideApi \<lparr>baseUrl = u, token = Some t, apikey = Some [], network = n\<rparr>
        = Inr \<lparr>opts = \<lparr>baseUrl = u, token = Some t, apikey = Some [], network = n\<rparr>,
               headers = [(''Authorization'', ''Bearer '' @ t)]\<rparr>)
   \<and> new_RocksideApi \<lparr>baseUrl = u, token = None, apikey = Some [], network = n\<rparr>
        = Inl (Error ''No authentication method provided: define apikey or token.'')"
  by (simp add: new_RocksideApi_def authenticationChecks_def truthy_def generateHeaders_def
      concat_operand_def)

theorem empty_apikey_counts_as_absent_witness:
  "''t'' \<noteq> []
   \<and> new_RocksideApi \<lparr>baseUrl = ''https://x'', token = Some ''t'', apikey = Some [], network = Mainnet\<rparr>
        = Inr \<lparr>opts = \<lparr>baseUrl = ''https://x'', token = Some ''t'', apikey = Some [], network = Mainnet\<rparr>,
               headers = [(''Authorization'', ''Bearer t'')]\<rparr>
   \<and> new_RocksideApi \<lparr>baseUrl = ''https://x'', token = None, apikey = Some [], network = Mainnet\<rparr>
        = Inl (Error ''No authentication method provided: define apikey or token.'')"
  using empty_apikey_counts_as_absent [of "''t''" "''https://x''" Mainnet]
  by simp

subsection \<open>Headers\<close>

lemma send_Inr:
  assumes "send this route verb body = Inr req"
  shows "req_url req = baseUrl (opts this) @ route"
    and "req_method req = verb"
    and "req_headers req = headers this"
    and "body = None \<Longrightarrow> req_body req = None"
    and "body = Some obj \<Longrightarrow> JSON_stringify obj = Inr s \<Longrightarrow> req_body req = Some s"
  using assms
  by (auto simp add: send_def split: option.splits sum.splits)

lemmas request_defs =
  getIdentities_request_def createIdentity_request_def getEOAs_request_def createEOA_request_def
  signMessageWithEOA_request_def sendTransaction_request_def createEncryptedAccount_request_def
  connectEncryptedAccount_request_def createEncryptedWallet_request_def
  getEncryptedWallets_request_def deployIdentityContract_request_def getRelayParams_request_def
  relayTransaction_request_def getTransaction_request_def

lemma request_of_headers:
  assumes "request_of this c = Inr req"
  shows "req_headers req = headers this"
  using assms
  by (cases c) (simp_all add: request_defs send_Inr(3))

lemma request_of_url:
  assumes "request_of this c = Inr req"
  shows "\<exists>route. req_url req = baseUrl (opts this) @ route"
  using assms
  by (cases c) (auto simp add: request_defs dest: send_Inr(1))

text \<open>
  C3, as the code has it. For every successful construction: when a non-empty API key
  \<open>k\<close> was supplied, the headers are exactly \<^verbatim>\<open>{apikey: k}\<close>; otherwise (the key is
  absent or empty) a non-empty token \<open>t\<close> was supplied and the headers are exactly
  \<^verbatim>\<open>{Authorization: "Bearer " + t}\<close>. Every request a method of the client sends
  carries these headers.
\<close>

theorem constructed_headers:
  assumes "new_RocksideApi options = Inr this"
  shows "(\<forall>k. apikey options = Some k \<and> k \<noteq> [] \<longrightarrow> headers this = [(''apikey'', k)])
    \<and> (\<not> truthy (apikey options) \<longrightarrow>
          (\<exists>t. token options = Some t \<and> t \<noteq> []
             \<and> headers this = [(''Authorization'', ''Bearer '' @ t)]))
    \<and> (\<forall>c req. request_of this c = Inr req \<longrightarrow> req_headers req = headers this)"
proof -
  from assms have this_eq: "this = \<lparr>opts = options, headers = generateHeaders options\<rparr>"
    and ok: "truthy (apikey options) \<noteq> truthy (token options)"
    by (auto simp add: new_RocksideApi_def authenticationChecks_def split: if_splits)
  have "headers this = [(''apikey'', k)]" if "apikey options = Some k" "k \<noteq> []" for k
    using that by (simp add: this_eq generateHeaders_def)
  moreover have "\<exists>t. token options = Some t \<and> t \<noteq> []
      \<and> headers this = [(''Authorization'', ''Bearer '' @ t)]" if "\<not> truthy (apikey options)"
    using that ok
    by (auto simp add: this_eq generateHeaders_def truthy_def concat_operand_def split: option.splits)
  ultimately show ?thesis
    by (auto simp add: request_of_headers)
qed

theorem constructed_headers_witness:
  "new_RocksideApi \<lparr>baseUrl = ''https://x'', token = None, apikey = Some ''k'', network = Mainnet\<rparr>
     = Inr \<lparr>opts = \<lparr>baseUrl = ''https://x'', token = None, apikey = Some ''k'', network = Mainnet\<rparr>,
            headers = [(''apikey'', ''k'')]\<rparr>
   \<and> request_of
        \<lparr>opts = \<lparr>baseUrl = ''https://x'', token = None, apikey = Some ''k'', network = Mainnet\<rparr>,
         headers = [(''apikey'', ''k'')]\<rparr> GetEOAs
       = Inr \<lparr>req_url = ''https://x/ethereum/eoa'', req_method = ''GET'', req_body = None,
              req_headers = [(''apikey'', ''k'')]\<rparr>
   \<and> new_RocksideApi \<lparr>baseUrl = ''https://x'', token = Some ''t'', apikey = None, network = Mainnet\<rparr>
     = Inr \<lparr>opts = \<lparr>baseUrl = ''https://x'', token = Some ''t'', apikey = None, network = Mainnet\<rparr>,
            headers = [(''Authorization'', ''Bearer t'')]\<rparr>"
proof -
  let ?o1 = "\<lparr>baseUrl = ''https://x'', token = None, apikey = Some ''k'', network = Mainnet\<rparr>"
  let ?o2 = "\<lparr>baseUrl = ''https://x'', token = Some ''t'', apikey = None, network = Mainnet\<rparr>"
  have c1: "new_RocksideApi ?o1 = Inr \<lparr>opts = ?o1, headers = generateHeaders ?o1\<rparr>"
    by (simp add: new_RocksideApi_def authenticationChecks_def truthy_def)
  have c2: "new_RocksideApi ?o2 = Inr \<lparr>opts = ?o2, headers = generateHeaders ?o2\<rparr>"
    by (simp add: new_RocksideApi_def authenticationChecks_def truthy_def)
  have r: "request_of \<lparr>opts = ?o1, headers = generateHeaders ?o1\<rparr> GetEOAs
      = Inr \<lparr>req_url = ''https://x/ethereum/eoa'', req_method = ''GET'', req_body = None,
             req_headers = generateHeaders ?o1\<rparr>"
    by (simp add: getEOAs_request_def send_def)
  show ?thesis
    using constructed_headers [OF c1] constructed_headers [OF c2] c1 c2 r
    by (simp add: truthy_def)
qed

text \<open>
  The claim C3 as the specification words it fails where the API key supplied is the
  empty string: the construction succeeds with the token's headers, not with
  \<^verbatim>\<open>{apikey: ""}\<close>.
\<close>

theorem apikey_supplied_counterexample:
  "new_RocksideApi \<lparr>baseUrl = ''https://x'', token = Some ''t'', apikey = Some '''', network = Mainnet\<rparr>
     = Inr \<lparr>opts = \<lparr>baseUrl = ''https://x'', token = Some ''t'', apikey = Some '''', network = Mainnet\<rparr>,
            headers = [(''Authorization'', ''Bearer t'')]\<rparr>
   \<and> apikey \<lparr>baseUrl = ''https://x'', token = Some ''t'', apikey = Some '''', network = Mainnet\<rparr> = Some ''''
   \<and> [(''Authorization'', ''Bearer t'')] \<noteq> [(''apikey'', '''')]"
  by (simp add: new_RocksideApi_def authenticationChecks_def truthy_def generateHeaders_def
      concat_operand_def)

subsection \<open>The JSON-RPC URL\<close>

text \<open>
  C6. \<^verbatim>\<open>getRpcUrl\<close> is a function of the configuration alone (it takes no network and
  returns only the string): for every constructed client it is the base URL, then
  \<^verbatim>\<open>/ethereum/\<close>, the network's name and \<^verbatim>\<open>/jsonrpc\<close>; for the base URL
  \<^verbatim>\<open>https://x\<close> and the network \<^verbatim>\<open>[1, 'mainnet']\<close> it is
  \<^verbatim>\<open>https://x/ethereum/mainnet/jsonrpc\<close>.
\<close>

theorem getRpcUrl_format:
  assumes "new_RocksideApi options = Inr this"
  shows "getRpcUrl this = baseUrl options @ ''/ethereum/'' @ network_1 (network options) @ ''/jsonrpc''
    \<and> (baseUrl options = ''https://x'' \<and> network options = Mainnet \<longrightarrow>
          getRpcUrl this = ''https://x/ethereum/mainnet/jsonrpc'')"
  using assms
  by (auto simp add: new_RocksideApi_def getRpcUrl_def split: sum.splits)

theorem getRpcUrl_format_witness:
  "new_RocksideApi \<lparr>baseUrl = ''https://x'', token = Some ''t'', apikey = None, network = Mainnet\<rparr>
     = Inr \<lparr>opts = \<lparr>baseUrl = ''https://x'', token = Some ''t'', apikey = None, network = Mainnet\<rparr>,
            headers = [(''Authorization'', ''Bearer t'')]\<rparr>
   \<and> getRpcUrl \<lparr>opts = \<lparr>baseUrl = ''https://x'', token = Some ''t'', apikey = None, network = Mainnet\<rparr>,
            headers = [(''Authorization'', ''Bearer t'')]\<rparr> = ''https://x/ethereum/mainnet/jsonrpc''"
proof -
  let ?o = "\<lparr>baseUrl = ''https://x'', token = Some ''t'', apikey = None, network = Mainnet\<rparr>"
  have c: "new_RocksideApi ?o = Inr \<lparr>opts = ?o, headers = [(''Authorization'', ''Bearer t'')]\<rparr>"
    by (simp add: new_RocksideApi_def authenticationChecks_def truthy_def generateHeaders_def
        concat_operand_def)
  show ?thesis
    using getRpcUrl_format [OF c] c by simp
qed

subsection \<open>Hex amounts and JSON strings\<close>

text \<open>
  The digits \<^verbatim>\<open>toString(16)\<close> writes are hex digits, and they denote the number:
  \<^verbatim>\<open>parseInt\<close> reads a non-negative amount back from its \<^verbatim>\<open>0x\<close> form.
\<close>

lemma digits_of_16_hex:
  "set (digits_of 16 n) \<subseteq> digit_char ` {..<16} \<and> digits_of 16 n \<noteq> []
   \<and> hex_number (digits_of 16 n) = n"
proof (induction "16 :: nat" n rule: digits_of.induct)
  case (1 n)
  show ?case
  proof (cases "n < 16")
    case True
    then have "digits_of 16 n = [digit_char n]"
      by (simp add: digits_of.simps)
    with True show ?thesis
      by (simp add: hex_number_def digit_char_props(1))
  next
    case False
    then have unfold: "digits_of 16 n = digits_of 16 (n div 16) @ [digit_char (n mod 16)]"
      by (subst digits_of.simps) simp
    from False have IH: "set (digits_of 16 (n div 16)) \<subseteq> digit_char ` {..<16}"
      "hex_number (digits_of 16 (n div 16)) = n div 16"
      using "1.hyps" by simp_all
    have "hex_number (digits_of 16 n) = 16 * (n div 16) + n mod 16"
      using IH(2) by (simp add: unfold hex_number_def digit_char_props(1))
    with IH(1) show ?thesis
      by (simp add: unfold)
  qed
qed

lemma is_hex_digit_digit_char: "d < 16 \<Longrightarrow> is_hex_digit (digit_char d)"
  by (simp add: is_hex_digit_def digit_char_props(1))

lemma parseInt16_reads_hex:
  assumes "0 \<le> v"
  shows "parseInt16 (''0x'' @ Number_toString 16 v) = Some v"
proof -
  let ?ds = "digits_of 16 (nat v)"
  have "\<forall>c \<in> set ?ds. is_hex_digit c"
    using digits_of_16_hex [of "nat v"] by (auto simp add: is_hex_digit_digit_char)
  then have z: "takeWhile is_hex_digit ?ds = ?ds"
    by (simp add: takeWhile_eq_all_conv)
  have ds: "?ds \<noteq> []" "hex_number ?ds = nat v"
    using digits_of_16_hex [of "nat v"] by simp_all
  have "parseInt16 (''0x'' @ ?ds) = Some (int (hex_number ?ds))"
    by (simp add: parseInt16_def is_whitespace_def Let_def z ds(1))
  moreover have "Number_toString 16 v = ?ds"
    using assms by (simp add: Number_toString_def)
  ultimately show ?thesis
    using assms by (simp add: ds(2))
qed

lemma json_escape_plain:
  assumes "32 \<le> (of_char c :: nat)" "(of_char c :: nat) \<noteq> 34" "(of_char c :: nat) \<noteq> 92"
  shows "json_escape c = [c]"
  using assms by (simp add: json_escape_def)

lemma QuoteJSONString_plain:
  assumes "\<forall>c \<in> set s. json_escape c = [c]"
  shows "QuoteJSONString s = CHR 0x22 # s @ [CHR 0x22]"
proof -
  from assms have "concat (map json_escape s) = s"
    by (induction s) simp_all
  then show ?thesis
    by (simp add: QuoteJSONString_def)
qed

lemma json_escape_digit_char: "d < 16 \<Longrightarrow> json_escape (digit_char d) = [digit_char d]"
  by (cases d rule: nibble_cases; simp add: digit_char_def json_escape_def)

lemma json_escape_digits_of_16:
  "\<forall>c \<in> set (digits_of 16 n). json_escape c = [c]"
  using digits_of_16_hex [of n] by (auto simp add: json_escape_digit_char)

lemma json_escape_Number_toString_16:
  "\<forall>c \<in> set (Number_toString 16 v). json_escape c = [c]"
proof -
  have "json_escape CHR ''-'' = ''-''"
    by (simp add: json_escape_def)
  then show ?thesis
    using json_escape_digits_of_16 [of "nat v"] json_escape_digits_of_16 [of "nat (- v)"]
    by (simp add: Number_toString_def)
qed

lemma json_escape_buf2hex: "\<forall>c \<in> set (buf2hex b). json_escape c = [c]"
proof -
  have "set (buf2hex b) \<subseteq> set ''0x'' \<union> set (drop 2 (buf2hex b))"
    by (simp add: buf2hex_def)
  then have "set (buf2hex b) \<subseteq> set ''0x'' \<union> set ''0123456789abcdef''"
    using buf2hex_lowercase [of b] by blast
  moreover have "\<forall>c \<in> set ''0x'' \<union> set ''0123456789abcdef''. json_escape c = [c]"
    by (simp add: json_escape_def)
  ultimately show ?thesis
    by blast
qed

lemma Quote_hex_amount:
  "QuoteJSONString (''0x'' @ Number_toString 16 v) = [CHR 0x22] @ ''0x'' @ Number_toString 16 v @ [CHR 0x22]"
proof -
  have "\<forall>c \<in> set (''0x'' @ Number_toString 16 v). json_escape c = [c]"
    using json_escape_Number_toString_16 [of v] by (simp add: json_escape_def)
  then show ?thesis
    by (simp add: QuoteJSONString_plain)
qed

lemma Quote_buf2hex:
  "QuoteJSONString (buf2hex b) = [CHR 0x22] @ buf2hex b @ [CHR 0x22]"
  using json_escape_buf2hex [of b] by (simp add: QuoteJSONString_plain)

lemma Quote_key:
  \<open>QuoteJSONString ''relayer'' = ''"relayer"''\<close>
  \<open>QuoteJSONString ''from'' = ''"from"''\<close>
  \<open>QuoteJSONString ''to'' = ''"to"''\<close>
  \<open>QuoteJSONString ''value'' = ''"value"''\<close>
  \<open>QuoteJSONString ''data'' = ''"data"''\<close>
  \<open>QuoteJSONString ''signature'' = ''"signature"''\<close>
  by (simp_all add: QuoteJSONString_def json_escape_def)

subsection \<open>The body of \<^verbatim>\<open>relayTransaction\<close>\<close>

lemma JSON_stringify_relayTransaction_body:
  \<open>JSON_stringify (relayTransaction_body tx) =
     Inr (''{"relayer":'' @ QuoteJSONString (relayer tx)
          @ '',"from":'' @ QuoteJSONString (tx_from tx)
          @ '',"to":'' @ QuoteJSONString (tx_to tx)
          @ '',"value":"0x'' @ Number_toString 16 (tx_value tx)
          @ ''","data":"'' @ buf2hex (tx_data tx)
          @ ''","signature":'' @ QuoteJSONString (signature tx) @ ''}'')\<close>
  by (simp add: JSON_stringify_def relayTransaction_body_def Quote_key
      Quote_hex_amount [simplified] Quote_buf2hex)

lemma relayTransaction_request_eq:
  \<open>relayTransaction_request this identity tx =
     Inr \<lparr>req_url = baseUrl (opts this) @ ''/ethereum/'' @ network_1 (network (opts this))
                    @ ''/contracts/relayableidentity/'' @ identity @ ''/relayExecute'',
          req_method = ''POST'',
          req_body = Some (''{"relayer":'' @ QuoteJSONString (relayer tx)
            @ '',"from":'' @ QuoteJSONString (tx_from tx)
            @ '',"to":'' @ QuoteJSONString (tx_to tx)
            @ '',"value":"0x'' @ Number_toString 16 (tx_value tx)
            @ ''","data":"'' @ buf2hex (tx_data tx)
            @ ''","signature":'' @ QuoteJSONString (signature tx) @ ''}''),
          req_headers = headers this\<rparr>\<close>
  by (simp only: relayTransaction_request_def send_def JSON_stringify_relayTransaction_body
      option.case sum.case)

text \<open>
  C7. For every transaction, the body \<^verbatim>\<open>relayTransaction\<close> sends holds, under
  \<^verbatim>\<open>value\<close>, the string \<^verbatim>\<open>0x\<close> followed by the amount as \<^verbatim>\<open>toString(16)\<close> writes it,
  and under \<^verbatim>\<open>data\<close> the string \<^verbatim>\<open>buf2hex\<close> gives for the buffer. For a
  non-negative amount the \<^verbatim>\<open>value\<close> string reads back as the amount, and the amount
  255 is sent as \<^verbatim>\<open>0xff\<close>.
\<close>

theorem relayTransaction_hex_fields:
  \<open>relayTransaction_request this identity tx =
     Inr \<lparr>req_url = baseUrl (opts this) @ ''/ethereum/'' @ network_1 (network (opts this))
                    @ ''/contracts/relayableidentity/'' @ identity @ ''/relayExecute'',
          req_method = ''POST'',
          req_body = Some (''{"relayer":'' @ QuoteJSONString (relayer tx)
            @ '',"from":'' @ QuoteJSONString (tx_from tx)
            @ '',"to":'' @ QuoteJSONString (tx_to tx)
            @ '',"value":"0x'' @ Number_toString 16 (tx_value tx)
            @ ''","data":"'' @ buf2hex (tx_data tx)
            @ ''","signature":'' @ QuoteJSONString (signature tx) @ ''}''),
          req_headers = headers this\<rparr>
   \<and> (0 \<le> tx_value tx \<longrightarrow>
        parseInt16 (''0x'' @ Number_toString 16 (tx_value tx)) = Some (tx_value tx))
   \<and> (tx_value tx = 255 \<longrightarrow> ''0x'' @ Number_toString 16 (tx_value tx) = ''0xff'')\<close>
proof -
  have "Number_toString 16 255 = ''ff''"
    by (simp add: Number_toString_def digits_of.simps digit_char_def)
  then show ?thesis
    using relayTransaction_request_eq [of this identity tx] parseInt16_reads_hex [of "tx_value tx"]
    by simp
qed

theorem relayTransaction_hex_fields_witness:
  \<open>(0 :: int) \<le> 255
   \<and> relayTransaction_request
       \<lparr>opts = \<lparr>baseUrl = ''https://x'', token = None, apikey = Some ''k'', network = Mainnet\<rparr>,
        headers = [(''apikey'', ''k'')]\<rparr>
       ''0xabc''
       \<lparr>relayer = ''0xr'', tx_from = ''0xf'', tx_to = ''0xt'', tx_value = 255, tx_data = [1, 255],
        gas = 21000, gasPrice = 1, signature = ''0xs''\<rparr>
     = Inr \<lparr>req_url = ''https://x/ethereum/mainnet/contracts/relayableidentity/0xabc/relayExecute'',
            req_method = ''POST'',
            req_body = Some ''{"relayer":"0xr","from":"0xf","to":"0xt","value":"0xff","data":"0x01ff","signature":"0xs"}'',
            req_headers = [(''apikey'', ''k'')]\<rparr>
   \<and> parseInt16 ''0xff'' = Some 255\<close>
proof -
  have b: "buf2hex [1, 255] = ''0x01ff''"
    by (simp add: buf2hex_digits digit_char_def)
  have n: "Number_toString 16 255 = ''ff''"
    by (simp add: Number_toString_def digits_of.simps digit_char_def)
  show ?thesis
    using relayTransaction_hex_fields
      [of "\<lparr>opts = \<lparr>baseUrl = ''https://x'', token = None, apikey = Some ''k'', network = Mainnet\<rparr>,
            headers = [(''apikey'', ''k'')]\<rparr>"
          "''0xabc''"
          "\<lparr>relayer = ''0xr'', tx_from = ''0xf'', tx_to = ''0xt'', tx_value = 255, tx_data = [1, 255],
            gas = 21000, gasPrice = 1, signature = ''0xs''\<rparr>"]
    by (simp add: b n QuoteJSONString_def json_escape_def)
qed

subsection \<open>The shared request builder\<close>

lemma send_Some_body:
  assumes "send this route verb (Some obj) = Inr req"
  shows "req_body req \<noteq> None"
  using assms by (auto simp add: send_def split: sum.splits)

lemma request_of_body_None_iff_GET:
  assumes "request_of this c = Inr req"
  shows "(req_body req = None) = (req_method req = ''GET'')"
  using assms
  by (cases c)
    (auto simp add: request_defs dest: send_Some_body send_Inr(2) send_Inr(4))

lemma createEOA_request_eq:
  "createEOA_request this =
     Inr \<lparr>req_url = baseUrl (opts this) @ ''/ethereum/eoa'', req_method = ''POST'',
          req_body = Some ''{}'', req_headers = headers this\<rparr>"
  by (simp add: createEOA_request_def send_def JSON_stringify_def)

text \<open>
  C8, as the code has it. The URL of a request is the base URL followed by the route.
  A body that is \<^verbatim>\<open>null\<close> gives a request with no body; a body that is an object
  gives a request that carries its JSON text, the empty object included: the request
  of \<^verbatim>\<open>createEOA\<close> carries \<^verbatim>\<open>{}\<close>. Among the requests of the methods, the ones with no
  body are exactly the \<^verbatim>\<open>GET\<close> requests.
\<close>

theorem send_url_and_body:
  "send this route verb None =
     Inr \<lparr>req_url = baseUrl (opts this) @ route, req_method = verb,
          req_body = None, req_headers = headers this\<rparr>
   \<and> (JSON_stringify obj = Inr s \<longrightarrow>
        send this route verb (Some obj) =
          Inr \<lparr>req_url = baseUrl (opts this) @ route, req_method = verb,
               req_body = Some s, req_headers = headers this\<rparr>)
   \<and> JSON_stringify [] = Inr ''{}''
   \<and> createEOA_request this =
        Inr \<lparr>req_url = baseUrl (opts this) @ ''/ethereum/eoa'', req_method = ''POST'',
             req_body = Some ''{}'', req_headers = headers this\<rparr>
   \<and> (\<forall>c req. request_of this c = Inr req \<longrightarrow>
          (\<exists>route. req_url req = baseUrl (opts this) @ route)
          \<and> (req_body req = None) = (req_method req = ''GET''))"
proof -
  have "JSON_stringify [] = Inr ''{}''"
    by (simp add: JSON_stringify_def)
  moreover have "send this route verb None =
     Inr \<lparr>req_url = baseUrl (opts this) @ route, req_method = verb,
          req_body = None, req_headers = headers this\<rparr>"
    by (simp add: send_def)
  moreover have "send this route verb (Some obj) =
          Inr \<lparr>req_url = baseUrl (opts this) @ route, req_method = verb,
               req_body = Some s, req_headers = headers this\<rparr>" if "JSON_stringify obj = Inr s"
    using that by (simp add: send_def)
  ultimately show ?thesis
    using createEOA_request_eq [of this] request_of_url [of this] request_of_body_None_iff_GET [of this]
    by blast
qed

theorem send_url_and_body_witness:
  \<open>JSON_stringify [(''message'', JSString ''0x12'')] = Inr ''{"message":"0x12"}''
   \<and> send \<lparr>opts = \<lparr>baseUrl = ''https://x'', token = None, apikey = Some ''k'', network = Mainnet\<rparr>,
             headers = [(''apikey'', ''k'')]\<rparr>
          ''/ethereum/eoa/0xe/sign-message'' ''POST'' (Some [(''message'', JSString ''0x12'')])
       = Inr \<lparr>req_url = ''https://x/ethereum/eoa/0xe/sign-message'', req_method = ''POST'',
              req_body = Some ''{"message":"0x12"}'', req_headers = [(''apikey'', ''k'')]\<rparr>
   \<and> request_of \<lparr>opts = \<lparr>baseUrl = ''https://x'', token = None, apikey = Some ''k'', network = Mainnet\<rparr>,
             headers = [(''apikey'', ''k'')]\<rparr> GetEOAs
       = Inr \<lparr>req_url = ''https://x/ethereum/eoa'', req_method = ''GET'',
              req_body = None, req_headers = [(''apikey'', ''k'')]\<rparr>
   \<and> (\<exists>route. req_url \<lparr>req_url = ''https://x/ethereum/eoa'', req_method = ''GET'',
              req_body = None, req_headers = [(''apikey'', ''k'')]\<rparr> = ''https://x'' @ route)\<close>
proof -
  let ?cl = "\<lparr>opts = \<lparr>baseUrl = ''https://x'', token = None, apikey = Some ''k'', network = Mainnet\<rparr>,
             headers = [(''apikey'', ''k'')]\<rparr>"
  let ?r = "\<lparr>req_url = ''https://x/ethereum/eoa'', req_method = ''GET'',
              req_body = None, req_headers = [(''apikey'', ''k'')]\<rparr>"
  have js: \<open>JSON_stringify [(''message'', JSString ''0x12'')] = Inr ''{"message":"0x12"}''\<close>
    by (simp add: JSON_stringify_def QuoteJSONString_def json_escape_def)
  have r: "request_of ?cl GetEOAs = Inr ?r"
    by (simp add: getEOAs_request_def send_def)
  note inst = send_url_and_body [of ?cl "''/ethereum/eoa/0xe/sign-message''" "''POST''"
      "[(''message'', JSString ''0x12'')]" \<open>''{"message":"0x12"}''\<close>]
  from inst have "\<exists>route. req_url ?r = baseUrl (opts ?cl) @ route"
    using r by blast
  moreover from inst js have \<open>send ?cl ''/ethereum/eoa/0xe/sign-message'' ''POST''
      (Some [(''message'', JSString ''0x12'')])
       = Inr \<lparr>req_url = ''https://x/ethereum/eoa/0xe/sign-message'', req_method = ''POST'',
              req_body = Some ''{"message":"0x12"}'',
              req_headers = [(''apikey'', ''k'')]\<rparr>\<close>
    by simp
  ultimately show ?thesis
    using js r by simp
qed

text \<open>
  The claim C8 as the specification words it fails at the empty body: \<^verbatim>\<open>send\<close> called
  with \<^verbatim>\<open>{}\<close>, as \<^verbatim>\<open>createEOA\<close> calls it, builds a request whose body is the text
  \<^verbatim>\<open>{}\<close>, not a request with no body.
\<close>

theorem empty_body_is_sent_counterexample:
  "send \<lparr>opts = \<lparr>baseUrl = ''https://x'', token = None, apikey = Some ''k'', network = Mainnet\<rparr>,
          headers = [(''apikey'', ''k'')]\<rparr> ''/ethereum/eoa'' ''POST'' (Some [])
     = Inr \<lparr>req_url = ''https://x/ethereum/eoa'', req_method = ''POST'',
            req_body = Some ''{}'', req_headers = [(''apikey'', ''k'')]\<rparr>
   \<and> createEOA_request \<lparr>opts = \<lparr>baseUrl = ''https://x'', token = None, apikey = Some ''k'', network = Mainnet\<rparr>,
          headers = [(''apikey'', ''k'')]\<rparr>
     = Inr \<lparr>req_url = ''https://x/ethereum/eoa'', req_method = ''POST'',
            req_body = Some ''{}'', req_headers = [(''apikey'', ''k'')]\<rparr>
   \<and> req_body \<lparr>req_url = ''https://x/ethereum/eoa'', req_method = ''POST'',
            req_body = Some ''{}'', req_headers = [(''apikey'', ''k'')]\<rparr> \<noteq> None"
  by (simp add: createEOA_request_def send_def JSON_stringify_def)

subsection \<open>The status of \<^verbatim>\<open>createEncryptedAccount\<close>\<close>

lemma createEncryptedAccount_request_ok:
  "\<exists>req. createEncryptedAccount_request this account = Inr req"
  by (simp add: createEncryptedAccount_request_def send_def JSON_stringify_def
      createEncryptedAccount_body_def)

lemma createEncryptedAccount_after_fetch:
  assumes "createEncryptedAccount_request this account = Inr req"
    and "net req = Inr resp"
  shows "createEncryptedAccount net this account =
           (if status resp \<noteq> 201 \<and> status resp \<noteq> 409 then throw_extractError resp else Inr ())"
  using assms by (simp add: createEncryptedAccount_def)

lemma throw_extractError_cases:
  "resp_json resp = Inl e \<Longrightarrow> throw_extractError resp = Inl e"
  "resp_json resp = Inr JNull \<Longrightarrow> throw_extractError resp = Inl TypeError"
  "resp_json resp = Inr j \<Longrightarrow> j \<noteq> JNull \<Longrightarrow> \<forall>ps. j \<noteq> JObject ps \<Longrightarrow>
     throw_extractError resp = Inl (Error [])"
  "resp_json resp = Inr (JObject ps) \<Longrightarrow> map_of (rev ps) ''error'' = None \<Longrightarrow>
     throw_extractError resp = Inl (Error [])"
  "resp_json resp = Inr (JObject ps) \<Longrightarrow> map_of (rev ps) ''error'' = Some v \<Longrightarrow>
     throw_extractError resp = (case ToString v of Inl e \<Rightarrow> Inl e | Inr m \<Rightarrow> Inl (Error m))"
  by (auto simp add: throw_extractError_def extractError_def get_property_def new_Error_def
      split: sum.splits json.splits)

lemma throw_extractError_isl: "isl (throw_extractError resp :: error + 'a)"
  by (simp add: throw_extractError_def split: sum.splits)

text \<open>
  C4, as the code has it. Whatever the network answers to the request of
  \<^verbatim>\<open>createEncryptedAccount\<close>: a response with status 201 or 409 is a success. Any
  other status raises an error, after the body is parsed: when the body does not
  parse, the parse failure; when the body is \<^verbatim>\<open>null\<close>, a \<^verbatim>\<open>TypeError\<close> (no property
  of \<^verbatim>\<open>null\<close> can be read); otherwise an \<^verbatim>\<open>Error\<close> whose message is the body's
  \<^verbatim>\<open>error\<close> field as a string: the field itself when it is a string (status 500 with
  the body \<^verbatim>\<open>{"error":"db down"}\<close> raises \<^verbatim>\<open>db down\<close>), the text of a number, a boolean
  or \<^verbatim>\<open>null\<close>, the joined elements of an array, \<^verbatim>\<open>[object Object]\<close> for an object, and
  the empty message when the body has no such field. Only a field that has no string
  form (an object with a \<^verbatim>\<open>toString\<close> key of its own, or an array that holds one)
  gives a \<^verbatim>\<open>TypeError\<close> instead.
\<close>

theorem createEncryptedAccount_outcome:
  assumes "createEncryptedAccount_request this account = Inr req"
    and "net req = Inr resp"
  shows "(status resp = 201 \<or> status resp = 409 \<longrightarrow>
            createEncryptedAccount net this account = Inr ())
    \<and> (status resp \<noteq> 201 \<and> status resp \<noteq> 409 \<longrightarrow>
          isl (createEncryptedAccount net this account)
        \<and> (\<forall>e. resp_json resp = Inl e \<longrightarrow> createEncryptedAccount net this account = Inl e)
        \<and> (resp_json resp = Inr JNull \<longrightarrow>
              createEncryptedAccount net this account = Inl TypeError)
        \<and> (\<forall>j. resp_json resp = Inr j \<and> j \<noteq> JNull \<and> (\<forall>ps. j \<noteq> JObject ps) \<longrightarrow>
              createEncryptedAccount net this account = Inl (Error []))
        \<and> (\<forall>ps. resp_json resp = Inr (JObject ps) \<longrightarrow>
              (map_of (rev ps) ''error'' = None \<longrightarrow>
                 createEncryptedAccount net this account = Inl (Error []))
            \<and> (\<forall>m. map_of (rev ps) ''error'' = Some (JString m) \<longrightarrow>
                 createEncryptedAccount net this account = Inl (Error m))
            \<and> (\<forall>n. map_of (rev ps) ''error'' = Some (JNumber n) \<longrightarrow>
                 createEncryptedAccount net this account = Inl (Error (Number_toString10 n)))
            \<and> (\<forall>b. map_of (rev ps) ''error'' = Some (JBool b) \<longrightarrow>
                 createEncryptedAccount net this account
                   = Inl (Error (if b then ''true'' else ''false'')))
            \<and> (map_of (rev ps) ''error'' = Some JNull \<longrightarrow>
                 createEncryptedAccount net this account = Inl (Error ''null''))
            \<and> (\<forall>qs. map_of (rev ps) ''error'' = Some (JObject qs) \<longrightarrow>
                 createEncryptedAccount net this account
                   = (if ''toString'' \<in> set (map fst qs) then Inl TypeError
                      else Inl (Error ''[object Object]'')))
            \<and> (\<forall>xs. map_of (rev ps) ''error'' = Some (JArray xs) \<longrightarrow>
                 createEncryptedAccount net this account
                   = (case ToString (JArray xs) of
                        Inl e \<Rightarrow> Inl e
                      | Inr m \<Rightarrow> Inl (Error m)))))"
proof -
  have R: "createEncryptedAccount net this account =
      (if status resp \<noteq> 201 \<and> status resp \<noteq> 409 then throw_extractError resp else Inr ())"
    using assms by (rule createEncryptedAccount_after_fetch)
  show ?thesis
  proof (cases "status resp \<noteq> 201 \<and> status resp \<noteq> 409")
    case False
    then show ?thesis
      by (auto simp add: R)
  next
    case True
    then have R': "createEncryptedAccount net this account = throw_extractError resp"
      by (simp add: R)
    have "isl (createEncryptedAccount net this account)"
      by (simp only: R' throw_extractError_isl)
    moreover have "createEncryptedAccount net this account = Inl (Error [])"
      if "resp_json resp = Inr j" "j \<noteq> JNull" "\<forall>ps. j \<noteq> JObject ps" for j
      unfolding R' using that by (rule throw_extractError_cases(3))
    ultimately show ?thesis
      using True
      by (auto simp add: R' throw_extractError_cases(1,2,4,5))
  qed
qed


theorem createEncryptedAccount_outcome_witness:
  "createEncryptedAccount
     (\<lambda>_. Inr \<lparr>status = 500, resp_json = Inr (JObject [(''error'', JString ''db down'')])\<rparr>)
     \<lparr>opts = \<lparr>baseUrl = ''https://x'', token = None, apikey = Some ''k'', network = Mainnet\<rparr>,
      headers = [(''apikey'', ''k'')]\<rparr>
     \<lparr>username = ''u'', iterations = 1000, passwordHash = [1], passwordDerivedKeyHash = [2],
      encryptedEncryptionKey = [3], encryptedEncryptionKeyIV = [4]\<rparr>
     = Inl (Error ''db down'')
   \<and> createEncryptedAccount
     (\<lambda>_. Inr \<lparr>status = 409, resp_json = Inl (SyntaxError ''Unexpected end of JSON input'')\<rparr>)
     \<lparr>opts = \<lparr>baseUrl = ''https://x'', token = None, apikey = Some ''k'', network = Mainnet\<rparr>,
      headers = [(''apikey'', ''k'')]\<rparr>
     \<lparr>username = ''u'', iterations = 1000, passwordHash = [1], passwordDerivedKeyHash = [2],
      encryptedEncryptionKey = [3], encryptedEncryptionKeyIV = [4]\<rparr>
     = Inr ()
   \<and> createEncryptedAccount
     (\<lambda>_. Inr \<lparr>status = 500, resp_json = Inl (SyntaxError ''Unexpected token < in JSON'')\<rparr>)
     \<lparr>opts = \<lparr>baseUrl = ''https://x'', token = None, apikey = Some ''k'', network = Mainnet\<rparr>,
      headers = [(''apikey'', ''k'')]\<rparr>
     \<lparr>username = ''u'', iterations = 1000, passwordHash = [1], passwordDerivedKeyHash = [2],
      encryptedEncryptionKey = [3], encryptedEncryptionKeyIV = [4]\<rparr>
     = Inl (SyntaxError ''Unexpected token < in JSON'')
   \<and> createEncryptedAccount
     (\<lambda>_. Inr \<lparr>status = 500, resp_json = Inr (JObject [(''error'', JNumber 42)])\<rparr>)
     \<lparr>opts = \<lparr>baseUrl = ''https://x'', token = None, apikey = Some ''k'', network = Mainnet\<rparr>,
      headers = [(''apikey'', ''k'')]\<rparr>
     \<lparr>username = ''u'', iterations = 1000, passwordHash = [1], passwordDerivedKeyHash = [2],
      encryptedEncryptionKey = [3], encryptedEncryptionKeyIV = [4]\<rparr>
     = Inl (Error ''42'')
   \<and> createEncryptedAccount
     (\<lambda>_. Inr \<lparr>status = 500, resp_json = Inr (JObject [(''message'', JString ''db down'')])\<rparr>)
     \<lparr>opts = \<lparr>baseUrl = ''https://x'', token = None, apikey = Some ''k'', network = Mainnet\<rparr>,
      headers = [(''apikey'', ''k'')]\<rparr>
     \<lparr>username = ''u'', iterations = 1000, passwordHash = [1], passwordDerivedKeyHash = [2],
      encryptedEncryptionKey = [3], encryptedEncryptionKeyIV = [4]\<rparr>
     = Inl (Error [])"
proof -
  let ?cl = "\<lparr>opts = \<lparr>baseUrl = ''https://x'', token = None, apikey = Some ''k'', network = Mainnet\<rparr>,
      headers = [(''apikey'', ''k'')]\<rparr>"
  let ?account = "\<lparr>username = ''u'', iterations = 1000, passwordHash = [1], passwordDerivedKeyHash = [2],
      encryptedEncryptionKey = [3], encryptedEncryptionKeyIV = [4 :: byte]\<rparr>"
  let ?r1 = "\<lparr>status = 500, resp_json = Inr (JObject [(''error'', JString ''db down'')])\<rparr>"
  let ?r2 = "\<lparr>status = 409, resp_json = Inl (SyntaxError ''Unexpected end of JSON input'')\<rparr>"
  let ?r3 = "\<lparr>status = 500, resp_json = Inl (SyntaxError ''Unexpected token < in JSON'')\<rparr>"
  let ?r4 = "\<lparr>status = 500, resp_json = Inr (JObject [(''error'', JNumber 42)])\<rparr>"
  let ?r5 = "\<lparr>status = 500, resp_json = Inr (JObject [(''message'', JString ''db down'')])\<rparr>"
  obtain req where req: "createEncryptedAccount_request ?cl ?account = Inr req"
    using createEncryptedAccount_request_ok by blast
  have n: "(\<lambda>_ :: request. Inr r :: error + response) req = Inr r" for r
    by simp
  have d: "Number_toString10 42 = ''42''"
    by (simp add: Number_toString10_def Number_value_def round_to_shift_def bit_length.simps
        decimal_text_def format_decimal_def shortest_decimal.simps decimal_candidate_def
        closer_def denotes_def decimal_digits.simps digit_char_def)
  from createEncryptedAccount_outcome [OF req n [of ?r1]]
    createEncryptedAccount_outcome [OF req n [of ?r2]]
    createEncryptedAccount_outcome [OF req n [of ?r3]]
    createEncryptedAccount_outcome [OF req n [of ?r4]]
    createEncryptedAccount_outcome [OF req n [of ?r5]]
  show ?thesis
    by (simp add: d)
qed

text \<open>
  The claim C4 as the specification words it fails at the body \<^verbatim>\<open>null\<close>: with status
  500 the body parses, and the error raised is the \<^verbatim>\<open>TypeError\<close> of reading
  \<^verbatim>\<open>null['error']\<close>, neither a parse failure nor an \<^verbatim>\<open>Error\<close> that carries a field
  of the body.
\<close>

theorem null_body_counterexample:
  "resp_json \<lparr>status = 500, resp_json = Inr JNull\<rparr> = Inr JNull
   \<and> createEncryptedAccount
     (\<lambda>_. Inr \<lparr>status = 500, resp_json = Inr JNull\<rparr>)
     \<lparr>opts = \<lparr>baseUrl = ''https://x'', token = None, apikey = Some ''k'', network = Mainnet\<rparr>,
      headers = [(''apikey'', ''k'')]\<rparr>
     \<lparr>username = ''u'', iterations = 1000, passwordHash = [1], passwordDerivedKeyHash = [2],
      encryptedEncryptionKey = [3], encryptedEncryptionKeyIV = [4]\<rparr>
     = Inl TypeError"
proof -
  let ?cl = "\<lparr>opts = \<lparr>baseUrl = ''https://x'', token = None, apikey = Some ''k'', network = Mainnet\<rparr>,
      headers = [(''apikey'', ''k'')]\<rparr>"
  let ?account = "\<lparr>username = ''u'', iterations = 1000, passwordHash = [1], passwordDerivedKeyHash = [2],
      encryptedEncryptionKey = [3], encryptedEncryptionKeyIV = [4 :: byte]\<rparr>"
  obtain req where req: "createEncryptedAccount_request ?cl ?account = Inr req"
    using createEncryptedAccount_request_ok by blast
  then show ?thesis
    by (simp add: createEncryptedAccount_def throw_extractError_def extractError_def
        get_property_def)
qed

subsection \<open>Storing and fetching a wallet\<close>

lemma decode_wallet_stored:
  "decode_wallet (stored_record (createEncryptedWallet_body account wallet)) = Inl TypeError"
  by (simp add: decode_wallet_def stored_record_def createEncryptedWallet_body_def
      get_property_def hex2buf_of_def)

lemma getEncryptedWallets_request_ok:
  "\<exists>req. getEncryptedWallets_request this uname pwHash = Inr req"
  by (simp add: getEncryptedWallets_request_def send_def JSON_stringify_def)

lemma getEncryptedWallets_echo:
  "getEncryptedWallets (echo_server (createEncryptedWallet_body account wallet)) this uname pwHash
     = Inl TypeError"
proof -
  obtain req where "getEncryptedWallets_request this uname pwHash = Inr req"
    using getEncryptedWallets_request_ok by blast
  then show ?thesis
    by (simp add: getEncryptedWallets_def echo_server_def decode_wallet_stored)
qed

lemma decode_wallet_renamed:
  "decode_wallet (JObject [(''encrypted_mnemonic'', JString (buf2hex m)),
                           (''mnemonic_iv'', JString (buf2hex iv))])
     = Inr \<lparr>encryptedMnemonic = m, encryptedMnemonicIV = iv\<rparr>"
  by (simp add: decode_wallet_def get_property_def hex2buf_of_def hex2buf_buf2hex_aux)

lemma getEncryptedWallets_renamed:
  "getEncryptedWallets
     (\<lambda>req. Inr \<lparr>status = 200,
                  resp_json = Inr (JArray [JObject
                    [(''encrypted_mnemonic'', JString (buf2hex (encryptedMnemonic wallet))),
                     (''mnemonic_iv'', JString (buf2hex (encryptedMnemonicIV wallet)))]])\<rparr>)
     this uname pwHash = Inr [wallet]"
proof -
  obtain req where "getEncryptedWallets_request this uname pwHash = Inr req"
    using getEncryptedWallets_request_ok by blast
  then show ?thesis
    by (simp add: getEncryptedWallets_def decode_wallet_renamed)
qed

text \<open>
  C9. \<^verbatim>\<open>createEncryptedWallet\<close> sends the IV of the mnemonic under the name
  \<^verbatim>\<open>encrypted_mnemonic_iv\<close> and sends no field named \<^verbatim>\<open>mnemonic_iv\<close>, the name
  \<^verbatim>\<open>getEncryptedWallets\<close> reads the IV from. So a wallet does not come back from a
  server that returns the record under the names it was stored with: decoding the
  stored record throws a \<^verbatim>\<open>TypeError\<close> (\<^verbatim>\<open>hex2buf\<close> of \<^verbatim>\<open>undefined\<close>), and so does the
  fetch. Had the record held the IV under \<^verbatim>\<open>mnemonic_iv\<close>, the wallet would have come
  back, from the decoding and from the fetch.
\<close>

theorem mnemonic_iv_field_mismatch:
  "map fst (createEncryptedWallet_body account wallet)
     = [''username'', ''password_hash'', ''encrypted_mnemonic'', ''encrypted_mnemonic_iv'']
   \<and> ''mnemonic_iv'' \<notin> set (map fst (createEncryptedWallet_body account wallet))
   \<and> decode_wallet (JObject [(''encrypted_mnemonic'', JString (buf2hex (encryptedMnemonic wallet))),
                             (''mnemonic_iv'', JString (buf2hex (encryptedMnemonicIV wallet)))])
       = Inr \<lparr>encryptedMnemonic = encryptedMnemonic wallet,
              encryptedMnemonicIV = encryptedMnemonicIV wallet\<rparr>
   \<and> decode_wallet (stored_record (createEncryptedWallet_body account wallet)) = Inl TypeError
   \<and> getEncryptedWallets (echo_server (createEncryptedWallet_body account wallet)) this uname pwHash
       = Inl TypeError
   \<and> getEncryptedWallets (echo_server (createEncryptedWallet_body account wallet)) this uname pwHash
       \<noteq> Inr [wallet]
   \<and> getEncryptedWallets
       (\<lambda>req. Inr \<lparr>status = 200,
                    resp_json = Inr (JArray [JObject
                      [(''encrypted_mnemonic'', JString (buf2hex (encryptedMnemonic wallet))),
                       (''mnemonic_iv'', JString (buf2hex (encryptedMnemonicIV wallet)))]])\<rparr>)
       this uname pwHash = Inr [wallet]"
proof -
  have "map fst (createEncryptedWallet_body account wallet)
     = [''username'', ''password_hash'', ''encrypted_mnemonic'', ''encrypted_mnemonic_iv'']"
    by (simp add: createEncryptedWallet_body_def)
  then show ?thesis
    using decode_wallet_renamed [of "encryptedMnemonic wallet" "encryptedMnemonicIV wallet"]
      decode_wallet_stored [of account wallet] getEncryptedWallets_echo [of account wallet this uname pwHash]
      getEncryptedWallets_renamed [of wallet this uname pwHash]
    by simp
qed

end
